theory Spec2Isabelle
  imports Main
begin

section \<open>The seed script \<^verbatim>\<open>apps/api/seed_db.py\<close>\<close>

text \<open>
  The script has one function, \<^verbatim>\<open>seed\<close>. It opens a database session, counts the
  users, and when there are none it writes three users, commits, re-reads two of
  them, writes three projects owned by those two and commits again. Everything it
  calls (the ORM classes, the session, the password hasher) lives in other modules of
  the application; those are modelled below from what the script passes to them and
  from the specification, while \<^verbatim>\<open>seed\<close> itself is translated statement by
  statement.
\<close>

subsection \<open>The ORM classes the script instantiates\<close>

text \<open>
  Modelled from the spec: the enumerations \<^verbatim>\<open>UserRole\<close>, \<^verbatim>\<open>ProjectStatus\<close> and
  \<^verbatim>\<open>ProjectPriority\<close> of \<^verbatim>\<open>app.models\<close> (section 3: role is one of
  administrator, manager, viewer; status one of draft, active, completed, archived;
  priority one of low, medium, high, critical). The script names the members
  \<^verbatim>\<open>UserRole.admin\<close>, \<^verbatim>\<open>UserRole.manager\<close>, \<^verbatim>\<open>UserRole.viewer\<close>,
  \<^verbatim>\<open>ProjectStatus.active\<close>, \<^verbatim>\<open>ProjectStatus.draft\<close>, \<^verbatim>\<open>ProjectPriority.high\<close>,
  \<^verbatim>\<open>ProjectPriority.medium\<close> and \<^verbatim>\<open>ProjectPriority.critical\<close>.
\<close>

datatype UserRole = UserRole_admin | UserRole_manager | UserRole_viewer

datatype ProjectStatus =
  ProjectStatus_draft | ProjectStatus_active | ProjectStatus_completed | ProjectStatus_archived

datatype ProjectPriority =
  ProjectPriority_low | ProjectPriority_medium | ProjectPriority_high | ProjectPriority_critical

text \<open>
  Modelled from the spec: the mapped classes \<^verbatim>\<open>User\<close> and \<^verbatim>\<open>Project\<close> of
  \<^verbatim>\<open>app.models\<close>. The fields are the keyword arguments the script passes to the
  constructors, and the primary key the script reads as \<^verbatim>\<open>admin.id\<close>, which is
  \<^verbatim>\<open>None\<close> until the storage assigns it (section 4.1: identifiers are assigned by
  Storage only on commit). A budget is a Python \<^verbatim>\<open>int\<close>.
\<close>

record User =
  user_id :: "int option"
  email :: string
  full_name :: string
  hashed_password :: string
  role :: UserRole
  is_active :: bool

record Project =
  project_id :: "int option"
  name :: string
  description :: string
  status :: ProjectStatus
  priority :: ProjectPriority
  budget :: int
  owner_id :: "int option"

subsection \<open>What a run can touch\<close>

text \<open>
  Python objects are shared and mutated: \<^verbatim>\<open>session.commit()\<close> sets the \<^verbatim>\<open>id\<close>
  of the very objects the script holds in \<^verbatim>\<open>admin\<close> and \<^verbatim>\<open>manager\<close>. So the
  objects of a run live in a heap (one list per class) and a variable holds a reference,
  the index of its object.
\<close>

datatype ref = User_ref nat | Project_ref nat

datatype error =
    StorageError string
  | HasherError string
  | NoResultFound
  | MultipleResultsFound
  | InvalidRequestError
  | UnmappedInstanceError
  | UnicodeEncodeError

text \<open>
  The calls a run makes on its collaborators, in the order it makes them. The journal
  of a run keeps each call with the exception it raised, if any.
\<close>

datatype call =
    Execute_select_count
  | Get_password_hash string
  | Construct ref
  | Add_all "ref list"
  | Commit
  | Refresh ref

record database =
  users :: "User list"
  projects :: "Project list"
  users_id_seq :: int
  projects_id_seq :: int

record world =
  store :: database
  journal :: "(call \<times> error option) list"
  stdout :: "string list"

text \<open>
  The state inside one call of \<^verbatim>\<open>seed\<close>: the world, the objects the call has
  constructed, and the objects its session holds as pending (\<^verbatim>\<open>session.new\<close>).
\<close>

record state =
  outside :: world
  user_objs :: "User list"
  project_objs :: "Project list"
  session_new :: "ref list"

text \<open>
  Modelled from the spec: the collaborators. \<^verbatim>\<open>get_password_hash\<close> of
  \<^verbatim>\<open>app.core.security\<close> maps a plaintext to a stored hash or raises (section 2,
  CredentialHasher; it is salted, so the function stands for the results of one run,
  which hashes each plaintext once); \<^verbatim>\<open>verify\<close> is its paired verify operation,
  which the script never calls; \<^verbatim>\<open>fault\<close> says which requests the storage engine
  fails, given the committed state it is asked in (section 7: the count query, an
  insert or a commit may fail).

  The process also has a standard output, whose encoding is not the script's to choose:
  \<open>stdout_encodable\<close> says which lines with characters outside ASCII it can encode.
\<close>

record env =
  get_password_hash :: "string \<Rightarrow> error + string"
  verify :: "string \<Rightarrow> string \<Rightarrow> bool"
  fault :: "database \<Rightarrow> call \<Rightarrow> error option"
  stdout_encodable :: "string \<Rightarrow> bool"

subsection \<open>Exceptions and effects\<close>

type_synonym 'a io = "state \<Rightarrow> (error + 'a) \<times> state"

definition return_io :: "'a \<Rightarrow> 'a io" where
  "return_io x s = (Inr x, s)"

definition raise_io :: "error \<Rightarrow> 'a io" where
  "raise_io e s = (Inl e, s)"

text \<open>Sequencing: an exception of the first computation ends the run with the state reached.\<close>

definition bind_io :: "'a io \<Rightarrow> ('a \<Rightarrow> 'b io) \<Rightarrow> 'b io" where
  "bind_io m f s = (case m s of (Inl e, s') \<Rightarrow> (Inl e, s') | (Inr x, s') \<Rightarrow> f x s')"

definition logged :: "call \<Rightarrow> error option \<Rightarrow> state \<Rightarrow> state" where
  "logged c r s = s\<lparr>outside := (outside s)\<lparr>journal := journal (outside s) @ [(c, r)]\<rparr>\<rparr>"

text \<open>A call on a collaborator: the journal records it with its exception or with \<open>None\<close>.\<close>

definition called :: "call \<Rightarrow> 'a io \<Rightarrow> 'a io" where
  "called c m s =
     (case m s of
        (Inl e, s') \<Rightarrow> (Inl e, logged c (Some e) s')
      | (Inr x, s') \<Rightarrow> (Inr x, logged c None s'))"

text \<open>A request to the storage engine raises when the engine fails it.\<close>

definition request :: "env \<Rightarrow> call \<Rightarrow> unit io" where
  "request env c s =
     (case fault env (store (outside s)) c of Some e \<Rightarrow> (Inl e, s) | None \<Rightarrow> (Inr (), s))"

text \<open>
  \<^verbatim>\<open>print(line)\<close>: one entry of \<open>stdout\<close> per call, without the newline print adds.
  A line is held as its UTF-8 bytes. Standard output encodes the line before it writes
  any of it: every encoding writes ASCII, and a line with other characters raises
  \<^verbatim>\<open>UnicodeEncodeError\<close>, nothing written, when the encoding has no code for them.
\<close>

definition is_ascii :: "char \<Rightarrow> bool" where
  "is_ascii c = (\<not> digit7 c)"

definition print :: "env \<Rightarrow> string \<Rightarrow> unit io" where
  "print env line s =
     (if list_all is_ascii line \<or> stdout_encodable env line
      then (Inr (), s\<lparr>outside := (outside s)\<lparr>stdout := stdout (outside s) @ [line]\<rparr>\<rparr>)
      else (Inl UnicodeEncodeError, s))"

subsection \<open>Formatting an integer in an f-string\<close>

definition digit_char :: "nat \<Rightarrow> char" where
  "digit_char d = char_of (48 + d)"

fun str_nat :: "nat \<Rightarrow> string" where
  "str_nat n = (if n < 10 then [digit_char n] else str_nat (n div 10) @ [digit_char (n mod 10)])"

declare str_nat.simps [simp del]

definition str_int :: "int \<Rightarrow> string" where
  "str_int i = (if i < 0 then CHR ''-'' # str_nat (nat (- i)) else str_nat (nat i))"

subsection \<open>The session\<close>

text \<open>
  Modelled from the spec: the storage operations (section 6: count query, insert batch,
  commit, retrieval of generated identifiers), in the shape of the SQLAlchemy calls the
  script makes.

  \<^verbatim>\<open>session.execute(select(func.count(User.id)))\<close> yields one row holding the
  number of users whose id is not NULL.
\<close>

definition count_user_ids :: "database \<Rightarrow> int" where
  "count_user_ids db = int (length (filter (\<lambda>u. user_id u \<noteq> None) (users db)))"

definition execute_select_count :: "env \<Rightarrow> int list io" where
  "execute_select_count env =
     called Execute_select_count
       (bind_io (request env Execute_select_count) (\<lambda>_ s.
          (Inr [count_user_ids (store (outside s))], s)))"

text \<open>\<^verbatim>\<open>result.scalar_one()\<close>: the single value of the single row, or an exception.\<close>

definition scalar_one :: "int list \<Rightarrow> int io" where
  "scalar_one rows =
     (case rows of
        [] \<Rightarrow> raise_io NoResultFound
      | [x] \<Rightarrow> return_io x
      | _ \<Rightarrow> raise_io MultipleResultsFound)"

text \<open>\<^verbatim>\<open>get_password_hash(plaintext)\<close>.\<close>

definition password_hash :: "env \<Rightarrow> string \<Rightarrow> string io" where
  "password_hash env plaintext =
     called (Get_password_hash plaintext) (\<lambda>s. (get_password_hash env plaintext, s))"

text \<open>\<^verbatim>\<open>User(...)\<close> and \<^verbatim>\<open>Project(...)\<close>: a new object, not yet known to the session.\<close>

definition new_User :: "User \<Rightarrow> ref io" where
  "new_User u s =
     (let r = User_ref (length (user_objs s))
      in (Inr r, logged (Construct r) None (s\<lparr>user_objs := user_objs s @ [u]\<rparr>)))"

definition new_Project :: "Project \<Rightarrow> ref io" where
  "new_Project p s =
     (let r = Project_ref (length (project_objs s))
      in (Inr r, logged (Construct r) None (s\<lparr>project_objs := project_objs s @ [p]\<rparr>)))"

text \<open>\<^verbatim>\<open>obj.id\<close>: the attribute as the object holds it now.\<close>

definition get_id :: "ref \<Rightarrow> int option io" where
  "get_id r s =
     (case r of
        User_ref n \<Rightarrow>
          if n < length (user_objs s) then (Inr (user_id (user_objs s ! n)), s)
          else (Inl UnmappedInstanceError, s)
      | Project_ref n \<Rightarrow>
          if n < length (project_objs s) then (Inr (project_id (project_objs s ! n)), s)
          else (Inl UnmappedInstanceError, s))"

text \<open>\<^verbatim>\<open>session.add_all(objs)\<close>: the objects become pending; nothing is written yet.\<close>

definition add_all :: "env \<Rightarrow> ref list \<Rightarrow> unit io" where
  "add_all env rs =
     called (Add_all rs)
       (bind_io (request env (Add_all rs)) (\<lambda>_ s.
          (Inr (), s\<lparr>session_new := session_new s @ rs\<rparr>)))"

text \<open>
  The flush of a commit: each pending object, in the order it was added, gets the next
  identifier of its table, is appended to the table, and keeps the identifier
  (the session is made with \<^verbatim>\<open>expire_on_commit=False\<close>).
\<close>

fun flush :: "ref list \<Rightarrow> state \<Rightarrow> (error + unit) \<times> state" where
  "flush [] s = (Inr (), s)"
| "flush (User_ref n # rs) s =
     (if n < length (user_objs s) then
        let db = store (outside s);
            u = (user_objs s ! n)\<lparr>user_id := Some (users_id_seq db)\<rparr>
        in flush rs
             (s\<lparr>outside := (outside s)\<lparr>store :=
                    db\<lparr>users := users db @ [u], users_id_seq := users_id_seq db + 1\<rparr>\<rparr>,
                user_objs := (user_objs s)[n := u]\<rparr>)
      else (Inl UnmappedInstanceError, s))"
| "flush (Project_ref n # rs) s =
     (if n < length (project_objs s) then
        let db = store (outside s);
            p = (project_objs s ! n)\<lparr>project_id := Some (projects_id_seq db)\<rparr>
        in flush rs
             (s\<lparr>outside := (outside s)\<lparr>store :=
                    db\<lparr>projects := projects db @ [p], projects_id_seq := projects_id_seq db + 1\<rparr>\<rparr>,
                project_objs := (project_objs s)[n := p]\<rparr>)
      else (Inl UnmappedInstanceError, s))"

text \<open>
  \<^verbatim>\<open>session.commit()\<close>: all pending objects are written and the transaction ends, or
  the call raises and nothing is written.
\<close>

definition commit :: "env \<Rightarrow> unit io" where
  "commit env =
     called Commit
       (bind_io (request env Commit) (\<lambda>_ s.
          case flush (session_new s) s of
            (Inl e, _) \<Rightarrow> (Inl e, s)
          | (Inr _, s') \<Rightarrow> (Inr (), s'\<lparr>session_new := []\<rparr>)))"

text \<open>
  \<^verbatim>\<open>session.refresh(obj)\<close>: the object's attributes are read again from its row, found
  by the identifier the object holds; an object with no identifier or no row cannot be
  refreshed.
\<close>

definition refresh :: "env \<Rightarrow> ref \<Rightarrow> unit io" where
  "refresh env r =
     called (Refresh r)
       (bind_io (request env (Refresh r)) (\<lambda>_ s.
          case r of
            User_ref n \<Rightarrow>
              if n < length (user_objs s) then
                (case user_id (user_objs s ! n) of
                   None \<Rightarrow> (Inl InvalidRequestError, s)
                 | Some i \<Rightarrow>
                     (case find (\<lambda>row. user_id row = Some i) (users (store (outside s))) of
                        None \<Rightarrow> (Inl InvalidRequestError, s)
                      | Some row \<Rightarrow> (Inr (), s\<lparr>user_objs := (user_objs s)[n := row]\<rparr>)))
              else (Inl UnmappedInstanceError, s)
          | Project_ref n \<Rightarrow>
              if n < length (project_objs s) then
                (case project_id (project_objs s ! n) of
                   None \<Rightarrow> (Inl InvalidRequestError, s)
                 | Some i \<Rightarrow>
                     (case find (\<lambda>row. project_id row = Some i) (projects (store (outside s))) of
                        None \<Rightarrow> (Inl InvalidRequestError, s)
                      | Some row \<Rightarrow> (Inr (), s\<lparr>project_objs := (project_objs s)[n := row]\<rparr>)))
              else (Inl UnmappedInstanceError, s)))"

subsection \<open>The script\<close>

text \<open>
  What \<^verbatim>\<open>seed\<close> hands back to its caller. The source leaves the function by a bare
  \<^verbatim>\<open>return\<close> or by reaching its end, so the value is always Python's \<^verbatim>\<open>None\<close>,
  here \<open>None\<close>; \<open>Some\<close> would carry an outcome object as the specification
  describes one (section 4.1: \<^verbatim>\<open>Skipped(existingCount)\<close> or
  \<^verbatim>\<open>Seeded(accountsCreated, recordsCreated)\<close>).
\<close>

datatype outcome = Skipped int | Seeded int int

type_synonym retval = "outcome option"

definition seed_body :: "env \<Rightarrow> retval io" where
  "seed_body env =
     bind_io (execute_select_count env) (\<lambda>result.
     bind_io (scalar_one result) (\<lambda>user_count.
     if user_count > 0 then
       bind_io (print env (''Database already has '' @ str_int user_count @ '' users. Skipping seed.'')) (\<lambda>_.
       return_io None)
     else
       bind_io (print env ''Database is empty. Seeding...'') (\<lambda>_.
       bind_io (password_hash env ''admin123'') (\<lambda>admin_hash.
       bind_io (new_User \<lparr>user_id = None, email = ''admin@example.com'',
                  full_name = ''Admin User'', hashed_password = admin_hash,
                  role = UserRole_admin, is_active = True\<rparr>) (\<lambda>admin.
       bind_io (password_hash env ''manager123'') (\<lambda>manager_hash.
       bind_io (new_User \<lparr>user_id = None, email = ''manager@example.com'',
                  full_name = ''Manager User'', hashed_password = manager_hash,
                  role = UserRole_manager, is_active = True\<rparr>) (\<lambda>manager.
       bind_io (password_hash env ''viewer123'') (\<lambda>viewer_hash.
       bind_io (new_User \<lparr>user_id = None, email = ''viewer@example.com'',
                  full_name = ''Viewer User'', hashed_password = viewer_hash,
                  role = UserRole_viewer, is_active = True\<rparr>) (\<lambda>viewer.
       bind_io (add_all env [admin, manager, viewer]) (\<lambda>_.
       bind_io (commit env) (\<lambda>_.
       bind_io (print env ''Created 3 users'') (\<lambda>_.
       bind_io (refresh env admin) (\<lambda>_.
       bind_io (refresh env manager) (\<lambda>_.
       bind_io (get_id admin) (\<lambda>admin_id.
       bind_io (new_Project \<lparr>project_id = None, name = ''Website Redesign'',
                  description = ''Complete website overhaul with modern design'',
                  status = ProjectStatus_active, priority = ProjectPriority_high,
                  budget = 5000000, owner_id = admin_id\<rparr>) (\<lambda>p1.
       bind_io (get_id manager) (\<lambda>manager_id.
       bind_io (new_Project \<lparr>project_id = None, name = ''Mobile App'',
                  description = ''iOS and Android app development'',
                  status = ProjectStatus_draft, priority = ProjectPriority_medium,
                  budget = 10000000, owner_id = manager_id\<rparr>) (\<lambda>p2.
       bind_io (get_id admin) (\<lambda>admin_id'.
       bind_io (new_Project \<lparr>project_id = None, name = ''API Integration'',
                  description = ''Third-party payment and shipping integrations'',
                  status = ProjectStatus_active, priority = ProjectPriority_critical,
                  budget = 2500000, owner_id = admin_id'\<rparr>) (\<lambda>p3.
       bind_io (add_all env [p1, p2, p3]) (\<lambda>_.
       bind_io (commit env) (\<lambda>_.
       bind_io (print env ''Created 3 projects'') (\<lambda>_.
       bind_io (print env (CHR 0x0A # CHR 0xE2 # CHR 0x9C # CHR 0x85 # '' Database seeded successfully!'')) (\<lambda>_.
       bind_io (print env (CHR 0x0A # ''Login credentials:'')) (\<lambda>_.
       bind_io (print env ''  admin@example.com / admin123'') (\<lambda>_.
       bind_io (print env ''  manager@example.com / manager123'') (\<lambda>_.
       bind_io (print env ''  viewer@example.com / viewer123'') (\<lambda>_.
       return_io None))))))))))))))))))))))))))))"

text \<open>
  \<^verbatim>\<open>async with async_session() as session\<close>: the run starts with a session that holds
  nothing and with no objects of its own; when the block is left, by its end, by the
  \<^verbatim>\<open>return\<close> or by an exception, the session and the objects are gone and the
  world stays as the run left it. The script has no \<^verbatim>\<open>try\<close>.
\<close>

definition seed :: "env \<Rightarrow> world \<Rightarrow> (error + retval) \<times> world" where
  "seed env w =
     (case seed_body env \<lparr>outside = w, user_objs = [], project_objs = [], session_new = []\<rparr> of
        (r, s) \<Rightarrow> (r, outside s))"

subsection \<open>What a complete run writes\<close>

text \<open>
  The rows, calls and lines that the lemmas of the next section show a run to produce,
  in closed form: \<open>h1\<close>, \<open>h2\<close> and \<open>h3\<close> are the three hashes, \<open>n\<close> and \<open>m\<close> the next
  identifiers of the two tables. They describe the script; the script is \<open>seed\<close>.
\<close>

definition seeded_users :: "string \<Rightarrow> string \<Rightarrow> string \<Rightarrow> int \<Rightarrow> User list" where
  "seeded_users h1 h2 h3 n =
     [\<lparr>user_id = Some n, email = ''admin@example.com'', full_name = ''Admin User'',
        hashed_password = h1, role = UserRole_admin, is_active = True\<rparr>,
      \<lparr>user_id = Some (n + 1), email = ''manager@example.com'', full_name = ''Manager User'',
        hashed_password = h2, role = UserRole_manager, is_active = True\<rparr>,
      \<lparr>user_id = Some (n + 1 + 1), email = ''viewer@example.com'', full_name = ''Viewer User'',
        hashed_password = h3, role = UserRole_viewer, is_active = True\<rparr>]"

definition seeded_projects :: "int \<Rightarrow> int \<Rightarrow> Project list" where
  "seeded_projects n m =
     [\<lparr>project_id = Some m, name = ''Website Redesign'',
        description = ''Complete website overhaul with modern design'',
        status = ProjectStatus_active, priority = ProjectPriority_high,
        budget = 5000000, owner_id = Some n\<rparr>,
      \<lparr>project_id = Some (m + 1), name = ''Mobile App'',
        description = ''iOS and Android app development'',
        status = ProjectStatus_draft, priority = ProjectPriority_medium,
        budget = 10000000, owner_id = Some (n + 1)\<rparr>,
      \<lparr>project_id = Some (m + 1 + 1), name = ''API Integration'',
        description = ''Third-party payment and shipping integrations'',
        status = ProjectStatus_active, priority = ProjectPriority_critical,
        budget = 2500000, owner_id = Some n\<rparr>]"

definition seed_calls :: "call list" where
  "seed_calls =
     [Execute_select_count,
      Get_password_hash ''admin123'', Construct (User_ref 0),
      Get_password_hash ''manager123'', Construct (User_ref 1),
      Get_password_hash ''viewer123'', Construct (User_ref 2),
      Add_all [User_ref 0, User_ref 1, User_ref 2], Commit,
      Refresh (User_ref 0), Refresh (User_ref 1),
      Construct (Project_ref 0), Construct (Project_ref 1), Construct (Project_ref 2),
      Add_all [Project_ref 0, Project_ref 1, Project_ref 2], Commit]"

definition seed_report :: "string list" where
  "seed_report =
     [''Database is empty. Seeding...'', ''Created 3 users'', ''Created 3 projects'',
      CHR 0x0A # CHR 0xE2 # CHR 0x9C # CHR 0x85 # '' Database seeded successfully!'',
      CHR 0x0A # ''Login credentials:'',
      ''  admin@example.com / admin123'',
      ''  manager@example.com / manager123'',
      ''  viewer@example.com / viewer123'']"

definition seeded_world :: "string \<Rightarrow> string \<Rightarrow> string \<Rightarrow> world \<Rightarrow> world" where
  "seeded_world h1 h2 h3 w =
     \<lparr>store =
        \<lparr>users = users (store w) @ seeded_users h1 h2 h3 (users_id_seq (store w)),
         projects = projects (store w) @
           seeded_projects (users_id_seq (store w)) (projects_id_seq (store w)),
         users_id_seq = users_id_seq (store w) + 1 + 1 + 1,
         projects_id_seq = projects_id_seq (store w) + 1 + 1 + 1\<rparr>,
      journal = journal w @ map (\<lambda>c. (c, None)) seed_calls,
      stdout = stdout w @ seed_report\<rparr>"

text \<open>
  The line the script prints first after "Created 3 projects" (line 86): a newline, the
  character U+2705 and a text. It is the only line of the script that is not ASCII. When
  standard output cannot encode it, the run ends there, with everything written and the
  three lines before it printed.
\<close>

definition success_line :: string where
  "success_line = CHR 0x0A # CHR 0xE2 # CHR 0x9C # CHR 0x85 # '' Database seeded successfully!''"

definition unprintable_world :: "string \<Rightarrow> string \<Rightarrow> string \<Rightarrow> world \<Rightarrow> world" where
  "unprintable_world h1 h2 h3 w =
     (seeded_world h1 h2 h3 w)\<lparr>stdout := stdout w @ take 3 seed_report\<rparr>"

text \<open>The committed state once the three users are written and before any project is.\<close>

definition after_accounts :: "string \<Rightarrow> string \<Rightarrow> string \<Rightarrow> database \<Rightarrow> database" where
  "after_accounts h1 h2 h3 db =
     db\<lparr>users := users db @ seeded_users h1 h2 h3 (users_id_seq db),
        users_id_seq := users_id_seq db + 1 + 1 + 1\<rparr>"

text \<open>The journal of a run whose call number \<open>k\<close> raised \<open>e\<close>, the calls before it returning.\<close>

definition failed_at :: "nat \<Rightarrow> error \<Rightarrow> (call \<times> error option) list" where
  "failed_at k e = map (\<lambda>c. (c, None)) (take k seed_calls) @ [(seed_calls ! k, Some e)]"

text \<open>
  The world a run leaves when its call number \<open>k\<close> raised \<open>e\<close> with the committed state
  \<open>db\<close>, and the world a run leaves that found users and skipped.
\<close>

definition failed_world :: "nat \<Rightarrow> error \<Rightarrow> database \<Rightarrow> world \<Rightarrow> world" where
  "failed_world k e db w =
     \<lparr>store = db,
      journal = journal w @ failed_at k e,
      stdout = stdout w @ take (if k = 0 then 0 else if k < 9 then 1 else 2) seed_report\<rparr>"

definition skipped_world :: "world \<Rightarrow> world" where
  "skipped_world w =
     w\<lparr>journal := journal w @ [(Execute_select_count, None)],
       stdout := stdout w @
         [''Database already has '' @ str_int (count_user_ids (store w)) @
          '' users. Skipping seed.'']\<rparr>"

subsection \<open>What one run adds to the world\<close>

text \<open>
  Tables, journal and standard output only grow: what a run added is what stands after
  the part that was there before.
\<close>

definition created_users :: "world \<Rightarrow> world \<Rightarrow> User list" where
  "created_users w w' = drop (length (users (store w))) (users (store w'))"

definition created_projects :: "world \<Rightarrow> world \<Rightarrow> Project list" where
  "created_projects w w' = drop (length (projects (store w))) (projects (store w'))"

definition calls_made :: "world \<Rightarrow> world \<Rightarrow> (call \<times> error option) list" where
  "calls_made w w' = drop (length (journal w)) (journal w')"

definition printed :: "world \<Rightarrow> world \<Rightarrow> string list" where
  "printed w w' = drop (length (stdout w)) (stdout w')"

text \<open>The projects whose owner is a user with the given email.\<close>

definition owned_by :: "database \<Rightarrow> string \<Rightarrow> Project list" where
  "owned_by db e =
     filter (\<lambda>p. \<exists>u \<in> set (users db). email u = e \<and> user_id u \<noteq> None \<and> owner_id p = user_id u)
       (projects db)"

text \<open>
  The login pairs the script prints at its end (lines 88 to 90), which are the email
  and the plaintext it gave to each \<^verbatim>\<open>User\<close> (lines 26 to 46).
\<close>

definition login_credentials :: "(string \<times> string) list" where
  "login_credentials =
     [(''admin@example.com'', ''admin123''),
      (''manager@example.com'', ''manager123''),
      (''viewer@example.com'', ''viewer123'')]"

text \<open>
  Modelled from the spec: what CredentialHasher promises (sections 2 and 8). The hasher
  itself is not part of the script: a stored hash is never the plaintext it was made
  from, and the paired verify operation accepts the plaintext against it.
\<close>

definition hasher_contract :: "env \<Rightarrow> bool" where
  "hasher_contract env =
     (\<forall>p h. get_password_hash env p = Inr h \<longrightarrow> h \<noteq> p \<and> verify env p h)"

text \<open>The exception of the first call of a journal that raised, if one did.\<close>

fun raised :: "(call \<times> error option) list \<Rightarrow> error option" where
  "raised [] = None"
| "raised ((c, None) # xs) = raised xs"
| "raised ((c, Some e) # xs) = Some e"

text \<open>A journal in which a call that raised is the last call.\<close>

fun ends_at_raise :: "(call \<times> error option) list \<Rightarrow> bool" where
  "ends_at_raise [] = True"
| "ends_at_raise ((c, None) # xs) = ends_at_raise xs"
| "ends_at_raise ((c, Some e) # xs) = (xs = [])"

text \<open>
  The calls that need the accounts to be in the storage: reading a user back, and
  constructing or adding a project.
\<close>

fun is_project_ref :: "ref \<Rightarrow> bool" where
  "is_project_ref (Project_ref n) = True"
| "is_project_ref (User_ref n) = False"

fun needs_accounts :: "call \<Rightarrow> bool" where
  "needs_accounts (Refresh r) = True"
| "needs_accounts (Construct r) = is_project_ref r"
| "needs_accounts (Add_all rs) = list_ex is_project_ref rs"
| "needs_accounts Execute_select_count = False"
| "needs_accounts (Get_password_hash p) = False"
| "needs_accounts Commit = False"

subsection \<open>Environments and worlds to run the script in\<close>

text \<open>
  A storage that fails no request, a hasher that prefixes the plaintext (it is not
  one-way, but its hashes differ from the plaintext and verify) and a standard output
  in UTF-8.
\<close>

definition env_ok :: env where
  "env_ok =
     \<lparr>get_password_hash = (\<lambda>p. Inr (''$2b$12$'' @ p)),
      verify = (\<lambda>p h. h = ''$2b$12$'' @ p),
      fault = (\<lambda>db c. None),
      stdout_encodable = (\<lambda>line. True)\<rparr>"

text \<open>The same with a standard output in ASCII.\<close>

definition env_ascii_stdout :: env where
  "env_ascii_stdout = env_ok\<lparr>stdout_encodable := (\<lambda>line. False)\<rparr>"

text \<open>A storage that fails every commit once there are users.\<close>

definition env_disk_full :: env where
  "env_disk_full =
     \<lparr>get_password_hash = (\<lambda>p. Inr (''$2b$12$'' @ p)),
      verify = (\<lambda>p h. h = ''$2b$12$'' @ p),
      fault = (\<lambda>db c. if c = Commit \<and> users db \<noteq> [] then Some (StorageError ''disk full'')
                       else None),
      stdout_encodable = (\<lambda>line. True)\<rparr>"

definition world_empty :: world where
  "world_empty =
     \<lparr>store = \<lparr>users = [], projects = [], users_id_seq = 1, projects_id_seq = 1\<rparr>,
      journal = [], stdout = []\<rparr>"

definition world_one_user :: world where
  "world_one_user =
     \<lparr>store =
        \<lparr>users = [\<lparr>user_id = Some 1, email = ''root@example.com'', full_name = ''Root'',
                    hashed_password = ''x'', role = UserRole_admin, is_active = True\<rparr>],
         projects = [], users_id_seq = 2, projects_id_seq = 1\<rparr>,
      journal = [], stdout = []\<rparr>"

section \<open>Running the script step by step\<close>

lemma find_append_rows:
  "find P (xs @ ys) = (case find P xs of None \<Rightarrow> find P ys | Some x \<Rightarrow> Some x)"
  by (induction xs) auto

lemma find_no_ids:
  "count_user_ids db = 0 \<Longrightarrow> find (\<lambda>row. user_id row = Some i) (users db) = None"
  by (auto simp: count_user_ids_def find_None_iff filter_empty_conv)

lemma bind_return: "bind_io (return_io x) f s = f x s"
  by (simp add: bind_io_def return_io_def)

lemma is_ascii_Char [simp]: "is_ascii (Char b0 b1 b2 b3 b4 b5 b6 b7) = (\<not> b7)"
  by (simp add: is_ascii_def)

lemma is_ascii_digit_char: "d < 10 \<Longrightarrow> is_ascii (digit_char d)"
  by (simp add: digit_char_def char_of_def bit_iff_odd)

lemma is_ascii_str_nat: "list_all is_ascii (str_nat n)"
proof (induction n rule: str_nat.induct)
  case (1 n)
  show ?case
  proof (cases "n < 10")
    case True
    then show ?thesis by (simp add: str_nat.simps [of n] is_ascii_digit_char)
  next
    case False
    with "1" show ?thesis by (simp add: str_nat.simps [of n] is_ascii_digit_char)
  qed
qed

lemma is_ascii_str_int: "list_all is_ascii (str_int i)"
  by (simp add: str_int_def is_ascii_str_nat)

lemma bind_print:
  "bind_io (print env l) f s =
     (if list_all is_ascii l \<or> stdout_encodable env l
      then f () (s\<lparr>outside := (outside s)\<lparr>stdout := stdout (outside s) @ [l]\<rparr>\<rparr>)
      else (Inl UnicodeEncodeError, s))"
  by (simp add: bind_io_def print_def)

lemma bind_execute_select_count:
  "bind_io (execute_select_count env) f s =
     (case fault env (store (outside s)) Execute_select_count of
        Some e \<Rightarrow> (Inl e, logged Execute_select_count (Some e) s)
      | None \<Rightarrow> f [count_user_ids (store (outside s))] (logged Execute_select_count None s))"
  by (simp add: bind_io_def execute_select_count_def called_def request_def split: option.splits)

lemma bind_scalar_one: "bind_io (scalar_one [x]) f s = f x s"
  by (simp add: bind_io_def scalar_one_def return_io_def)

lemma bind_password_hash:
  "bind_io (password_hash env p) f s =
     (case get_password_hash env p of
        Inl e \<Rightarrow> (Inl e, logged (Get_password_hash p) (Some e) s)
      | Inr h \<Rightarrow> f h (logged (Get_password_hash p) None s))"
  by (simp add: bind_io_def password_hash_def called_def split: sum.splits)

lemma bind_new_User:
  "bind_io (new_User u) f s =
     f (User_ref (length (user_objs s)))
       (logged (Construct (User_ref (length (user_objs s)))) None (s\<lparr>user_objs := user_objs s @ [u]\<rparr>))"
  by (simp add: bind_io_def new_User_def Let_def)

lemma bind_new_Project:
  "bind_io (new_Project p) f s =
     f (Project_ref (length (project_objs s)))
       (logged (Construct (Project_ref (length (project_objs s)))) None
          (s\<lparr>project_objs := project_objs s @ [p]\<rparr>))"
  by (simp add: bind_io_def new_Project_def Let_def)

lemma bind_get_id_User:
  "n < length (user_objs s) \<Longrightarrow>
   bind_io (get_id (User_ref n)) f s = f (user_id (user_objs s ! n)) s"
  by (simp add: bind_io_def get_id_def)

lemma bind_add_all:
  "bind_io (add_all env rs) f s =
     (case fault env (store (outside s)) (Add_all rs) of
        Some e \<Rightarrow> (Inl e, logged (Add_all rs) (Some e) s)
      | None \<Rightarrow> f () (logged (Add_all rs) None (s\<lparr>session_new := session_new s @ rs\<rparr>)))"
  by (simp add: bind_io_def add_all_def called_def request_def split: option.splits)

lemma bind_commit:
  "bind_io (commit env) f s =
     (case fault env (store (outside s)) Commit of
        Some e \<Rightarrow> (Inl e, logged Commit (Some e) s)
      | None \<Rightarrow>
          (case flush (session_new s) s of
             (Inl e, _) \<Rightarrow> (Inl e, logged Commit (Some e) s)
           | (Inr _, s') \<Rightarrow> f () (logged Commit None (s'\<lparr>session_new := []\<rparr>))))"
  by (simp add: bind_io_def commit_def called_def request_def split: option.splits sum.splits prod.splits)

lemma bind_refresh_User:
  "n < length (user_objs s) \<Longrightarrow> user_id (user_objs s ! n) = Some i \<Longrightarrow>
   find (\<lambda>row. user_id row = Some i) (users (store (outside s))) = Some row \<Longrightarrow>
   bind_io (refresh env (User_ref n)) f s =
     (case fault env (store (outside s)) (Refresh (User_ref n)) of
        Some e \<Rightarrow> (Inl e, logged (Refresh (User_ref n)) (Some e) s)
      | None \<Rightarrow> f () (logged (Refresh (User_ref n)) None (s\<lparr>user_objs := (user_objs s)[n := row]\<rparr>)))"
  by (simp add: bind_io_def refresh_def called_def request_def split: option.splits)

lemmas seed_steps = bind_return bind_print bind_execute_select_count bind_scalar_one
  bind_password_hash bind_new_User bind_new_Project bind_get_id_User bind_add_all bind_commit
  bind_refresh_User logged_def return_io_def Let_def find_append_rows find_no_ids
  numeral_2_eq_2 is_ascii_str_int

lemmas seeded_defs = seeded_world_def seeded_users_def seeded_projects_def seed_calls_def
  seed_report_def after_accounts_def failed_at_def failed_world_def skipped_world_def
  success_line_def unprintable_world_def

subsection \<open>Every way a run can end\<close>

lemma seed_skips:
  assumes "count_user_ids (store w) > 0" and "fault env (store w) Execute_select_count = None"
  shows "seed env w = (Inr None, skipped_world w)"
  using assms
  by (simp add: seed_def seed_body_def seed_steps seeded_defs)

lemma seed_fails_count:
  assumes "fault env (store w) Execute_select_count = Some e"
  shows "seed env w = (Inl e, failed_world 0 e (store w) w)"
  using assms
  by (simp add: seed_def seed_body_def seed_steps seeded_defs)

lemma seed_fails_hash_admin:
  assumes "count_user_ids (store w) = 0"
    and "fault env (store w) Execute_select_count = None"
    and "get_password_hash env ''admin123'' = Inl e"
  shows "seed env w = (Inl e, failed_world 1 e (store w) w)"
  using assms
  by (simp add: seed_def seed_body_def seed_steps seeded_defs)

lemma seed_fails_hash_manager:
  assumes "count_user_ids (store w) = 0"
    and "fault env (store w) Execute_select_count = None"
    and "get_password_hash env ''admin123'' = Inr h1"
    and "get_password_hash env ''manager123'' = Inl e"
  shows "seed env w = (Inl e, failed_world 3 e (store w) w)"
  using assms
  by (simp add: seed_def seed_body_def seed_steps seeded_defs)

lemma seed_fails_hash_viewer:
  assumes "count_user_ids (store w) = 0"
    and "fault env (store w) Execute_select_count = None"
    and "get_password_hash env ''admin123'' = Inr h1"
    and "get_password_hash env ''manager123'' = Inr h2"
    and "get_password_hash env ''viewer123'' = Inl e"
  shows "seed env w = (Inl e, failed_world 5 e (store w) w)"
  using assms
  by (simp add: seed_def seed_body_def seed_steps seeded_defs)

lemma seed_fails_add_users:
  assumes "count_user_ids (store w) = 0"
    and "fault env (store w) Execute_select_count = None"
    and "get_password_hash env ''admin123'' = Inr h1"
    and "get_password_hash env ''manager123'' = Inr h2"
    and "get_password_hash env ''viewer123'' = Inr h3"
    and "fault env (store w) (Add_all [User_ref 0, User_ref 1, User_ref 2]) = Some e"
  shows "seed env w = (Inl e, failed_world 7 e (store w) w)"
  using assms
  by (simp add: seed_def seed_body_def seed_steps seeded_defs)

lemma seed_fails_commit_users:
  assumes "count_user_ids (store w) = 0"
    and "fault env (store w) Execute_select_count = None"
    and "get_password_hash env ''admin123'' = Inr h1"
    and "get_password_hash env ''manager123'' = Inr h2"
    and "get_password_hash env ''viewer123'' = Inr h3"
    and "fault env (store w) (Add_all [User_ref 0, User_ref 1, User_ref 2]) = None"
    and "fault env (store w) Commit = Some e"
  shows "seed env w = (Inl e, failed_world 8 e (store w) w)"
  using assms
  by (simp add: seed_def seed_body_def seed_steps seeded_defs)

lemma seed_fails_refresh_admin:
  assumes "count_user_ids (store w) = 0"
    and "fault env (store w) Execute_select_count = None"
    and "get_password_hash env ''admin123'' = Inr h1"
    and "get_password_hash env ''manager123'' = Inr h2"
    and "get_password_hash env ''viewer123'' = Inr h3"
    and "fault env (store w) (Add_all [User_ref 0, User_ref 1, User_ref 2]) = None"
    and "fault env (store w) Commit = None"
    and "fault env (after_accounts h1 h2 h3 (store w)) (Refresh (User_ref 0)) = Some e"
  shows "seed env w = (Inl e, failed_world 9 e (after_accounts h1 h2 h3 (store w)) w)"
  using assms
  by (simp add: seed_def seed_body_def seed_steps seeded_defs)

lemma seed_fails_refresh_manager:
  assumes "count_user_ids (store w) = 0"
    and "fault env (store w) Execute_select_count = None"
    and "get_password_hash env ''admin123'' = Inr h1"
    and "get_password_hash env ''manager123'' = Inr h2"
    and "get_password_hash env ''viewer123'' = Inr h3"
    and "fault env (store w) (Add_all [User_ref 0, User_ref 1, User_ref 2]) = None"
    and "fault env (store w) Commit = None"
    and "fault env (after_accounts h1 h2 h3 (store w)) (Refresh (User_ref 0)) = None"
    and "fault env (after_accounts h1 h2 h3 (store w)) (Refresh (User_ref 1)) = Some e"
  shows "seed env w = (Inl e, failed_world 10 e (after_accounts h1 h2 h3 (store w)) w)"
  using assms
  by (simp add: seed_def seed_body_def seed_steps seeded_defs)

lemma seed_fails_add_projects:
  assumes "count_user_ids (store w) = 0"
    and "fault env (store w) Execute_select_count = None"
    and "get_password_hash env ''admin123'' = Inr h1"
    and "get_password_hash env ''manager123'' = Inr h2"
    and "get_password_hash env ''viewer123'' = Inr h3"
    and "fault env (store w) (Add_all [User_ref 0, User_ref 1, User_ref 2]) = None"
    and "fault env (store w) Commit = None"
    and "fault env (after_accounts h1 h2 h3 (store w)) (Refresh (User_ref 0)) = None"
    and "fault env (after_accounts h1 h2 h3 (store w)) (Refresh (User_ref 1)) = None"
    and "fault env (after_accounts h1 h2 h3 (store w)) (Add_all [Project_ref 0, Project_ref 1, Project_ref 2]) = Some e"
  shows "seed env w = (Inl e, failed_world 14 e (after_accounts h1 h2 h3 (store w)) w)"
  using assms
  by (simp add: seed_def seed_body_def seed_steps seeded_defs)

lemma seed_fails_commit_projects:
  assumes "count_user_ids (store w) = 0"
    and "fault env (store w) Execute_select_count = None"
    and "get_password_hash env ''admin123'' = Inr h1"
    and "get_password_hash env ''manager123'' = Inr h2"
    and "get_password_hash env ''viewer123'' = Inr h3"
    and "fault env (store w) (Add_all [User_ref 0, User_ref 1, User_ref 2]) = None"
    and "fault env (store w) Commit = None"
    and "fault env (after_accounts h1 h2 h3 (store w)) (Refresh (User_ref 0)) = None"
    and "fault env (after_accounts h1 h2 h3 (store w)) (Refresh (User_ref 1)) = None"
    and "fault env (after_accounts h1 h2 h3 (store w)) (Add_all [Project_ref 0, Project_ref 1, Project_ref 2]) = None"
    and "fault env (after_accounts h1 h2 h3 (store w)) Commit = Some e"
  shows "seed env w = (Inl e, failed_world 15 e (after_accounts h1 h2 h3 (store w)) w)"
  using assms
  by (simp add: seed_def seed_body_def seed_steps seeded_defs)

lemma seed_unprintable:
  assumes "count_user_ids (store w) = 0"
    and "fault env (store w) Execute_select_count = None"
    and "get_password_hash env ''admin123'' = Inr h1"
    and "get_password_hash env ''manager123'' = Inr h2"
    and "get_password_hash env ''viewer123'' = Inr h3"
    and "fault env (store w) (Add_all [User_ref 0, User_ref 1, User_ref 2]) = None"
    and "fault env (store w) Commit = None"
    and "fault env (after_accounts h1 h2 h3 (store w)) (Refresh (User_ref 0)) = None"
    and "fault env (after_accounts h1 h2 h3 (store w)) (Refresh (User_ref 1)) = None"
    and "fault env (after_accounts h1 h2 h3 (store w)) (Add_all [Project_ref 0, Project_ref 1, Project_ref 2]) = None"
    and "fault env (after_accounts h1 h2 h3 (store w)) Commit = None"
    and "\<not> stdout_encodable env success_line"
  shows "seed env w = (Inl UnicodeEncodeError, unprintable_world h1 h2 h3 w)"
  using assms
  by (simp add: seed_def seed_body_def seed_steps seeded_defs)

lemma seed_succeeds:
  assumes "count_user_ids (store w) = 0"
    and "fault env (store w) Execute_select_count = None"
    and "get_password_hash env ''admin123'' = Inr h1"
    and "get_password_hash env ''manager123'' = Inr h2"
    and "get_password_hash env ''viewer123'' = Inr h3"
    and "fault env (store w) (Add_all [User_ref 0, User_ref 1, User_ref 2]) = None"
    and "fault env (store w) Commit = None"
    and "fault env (after_accounts h1 h2 h3 (store w)) (Refresh (User_ref 0)) = None"
    and "fault env (after_accounts h1 h2 h3 (store w)) (Refresh (User_ref 1)) = None"
    and "fault env (after_accounts h1 h2 h3 (store w)) (Add_all [Project_ref 0, Project_ref 1, Project_ref 2]) = None"
    and "fault env (after_accounts h1 h2 h3 (store w)) Commit = None"
    and "stdout_encodable env success_line"
  shows "seed env w = (Inr None, seeded_world h1 h2 h3 w)"
  using assms
  by (simp add: seed_def seed_body_def seed_steps seeded_defs)

lemma count_user_ids_cases: "count_user_ids db = 0 \<or> count_user_ids db > 0"
  by (simp add: count_user_ids_def)

lemma seed_cases [case_names skipped failed unprintable seeded]:
  obtains
    (skipped) "count_user_ids (store w) > 0"
      and "fault env (store w) Execute_select_count = None"
      and "seed env w = (Inr None, skipped_world w)"
  | (failed) k e db where "k \<in> {0, 1, 3, 5, 7, 8, 9, 10, 14, 15}"
      and "k < 9 \<and> db = store w \<or>
           9 \<le> k \<and>
           (\<exists>h1 h2 h3. get_password_hash env ''admin123'' = Inr h1 \<and>
              get_password_hash env ''manager123'' = Inr h2 \<and>
              get_password_hash env ''viewer123'' = Inr h3 \<and>
              db = after_accounts h1 h2 h3 (store w))"
      and "case seed_calls ! k of
             Get_password_hash p \<Rightarrow> get_password_hash env p = Inl e
           | c \<Rightarrow> fault env db c = Some e"
      and "seed env w = (Inl e, failed_world k e db w)"
  | (unprintable) h1 h2 h3 where "count_user_ids (store w) = 0"
      and "get_password_hash env ''admin123'' = Inr h1"
      and "get_password_hash env ''manager123'' = Inr h2"
      and "get_password_hash env ''viewer123'' = Inr h3"
      and "\<not> stdout_encodable env success_line"
      and "seed env w = (Inl UnicodeEncodeError, unprintable_world h1 h2 h3 w)"
  | (seeded) h1 h2 h3 where "count_user_ids (store w) = 0"
      and "get_password_hash env ''admin123'' = Inr h1"
      and "get_password_hash env ''manager123'' = Inr h2"
      and "get_password_hash env ''viewer123'' = Inr h3"
      and "stdout_encodable env success_line"
      and "seed env w = (Inr None, seeded_world h1 h2 h3 w)"
proof (cases "fault env (store w) Execute_select_count")
  case (Some e)
  from this seed_fails_count [OF this] show ?thesis
    by (intro failed [of 0 "store w" e]) (simp_all add: seed_calls_def)
next
  case c: None
  show ?thesis
  proof (cases "count_user_ids (store w) > 0")
    case True
    from this c seed_skips [OF this c] show ?thesis by (rule skipped)
  next
    case False
    with count_user_ids_cases [of "store w"] have z: "count_user_ids (store w) = 0" by simp
    show ?thesis
    proof (cases "get_password_hash env ''admin123''")
      case (Inl e)
      from this seed_fails_hash_admin [OF z c this] show ?thesis
        by (intro failed [of 1 "store w" e]) (simp_all add: seed_calls_def)
    next
      case a: (Inr h1)
      show ?thesis
      proof (cases "get_password_hash env ''manager123''")
        case (Inl e)
        from this seed_fails_hash_manager [OF z c a this] show ?thesis
          by (intro failed [of 3 "store w" e]) (simp_all add: seed_calls_def)
      next
        case m: (Inr h2)
        show ?thesis
        proof (cases "get_password_hash env ''viewer123''")
          case (Inl e)
          from this seed_fails_hash_viewer [OF z c a m this] show ?thesis
            by (intro failed [of 5 "store w" e]) (simp_all add: seed_calls_def)
        next
          case v: (Inr h3)
          let ?db = "after_accounts h1 h2 h3 (store w)"
          from a m v have ex: "\<exists>x y z. get_password_hash env ''admin123'' = Inr x \<and>
              get_password_hash env ''manager123'' = Inr y \<and>
              get_password_hash env ''viewer123'' = Inr z \<and>
              ?db = after_accounts x y z (store w)"
            by blast
          show ?thesis
          proof (cases "fault env (store w) (Add_all [User_ref 0, User_ref 1, User_ref 2])")
            case (Some e)
            from this seed_fails_add_users [OF z c a m v this] show ?thesis
              by (intro failed [of 7 "store w" e]) (simp_all add: seed_calls_def)
          next
            case au: None
            show ?thesis
            proof (cases "fault env (store w) Commit")
              case (Some e)
              from this seed_fails_commit_users [OF z c a m v au this] show ?thesis
                by (intro failed [of 8 "store w" e]) (simp_all add: seed_calls_def)
            next
              case cu: None
              show ?thesis
              proof (cases "fault env ?db (Refresh (User_ref 0))")
                case (Some e)
                from this ex seed_fails_refresh_admin [OF z c a m v au cu this] show ?thesis
                  by (intro failed [of 9 ?db e]) (simp_all add: seed_calls_def)
              next
                case ra: None
                show ?thesis
                proof (cases "fault env ?db (Refresh (User_ref 1))")
                  case (Some e)
                  from this ex seed_fails_refresh_manager [OF z c a m v au cu ra this]
                  show ?thesis
                    by (intro failed [of 10 ?db e]) (simp_all add: seed_calls_def)
                next
                  case rm: None
                  show ?thesis
                  proof (cases "fault env ?db
                      (Add_all [Project_ref 0, Project_ref 1, Project_ref 2])")
                    case (Some e)
                    from this ex seed_fails_add_projects [OF z c a m v au cu ra rm this]
                    show ?thesis
                      by (intro failed [of 14 ?db e]) (simp_all add: seed_calls_def)
                  next
                    case ap: None
                    show ?thesis
                    proof (cases "fault env ?db Commit")
                      case (Some e)
                      from this ex seed_fails_commit_projects [OF z c a m v au cu ra rm ap this]
                      show ?thesis
                        by (intro failed [of 15 ?db e]) (simp_all add: seed_calls_def)
                    next
                      case cp: None
                      show ?thesis
                      proof (cases "stdout_encodable env success_line")
                        case True
                        from z a m v True
                          seed_succeeds [OF z c a m v au cu ra rm ap cp True]
                        show ?thesis by (rule seeded)
                      next
                        case False
                        from z a m v False
                          seed_unprintable [OF z c a m v au cu ra rm ap cp False]
                        show ?thesis by (rule unprintable)
                      qed
                    qed
                  qed
                qed
              qed
            qed
          qed
        qed
      qed
    qed
  qed
qed

lemma seed_returns:
  assumes "count_user_ids (store w) = 0" and "fst (seed env w) = Inr r"
  obtains h1 h2 h3 where "get_password_hash env ''admin123'' = Inr h1"
    and "get_password_hash env ''manager123'' = Inr h2"
    and "get_password_hash env ''viewer123'' = Inr h3"
    and "seed env w = (Inr None, seeded_world h1 h2 h3 w)"
  using assms by (cases rule: seed_cases [of w env]) auto

lemma seed_nothing_fails:
  assumes "count_user_ids (store w) = 0"
    and "\<forall>db c. fault env db c = None"
    and "\<forall>p \<in> set (map snd login_credentials). \<exists>h. get_password_hash env p = Inr h"
  obtains h1 h2 h3 where "get_password_hash env ''admin123'' = Inr h1"
    and "get_password_hash env ''manager123'' = Inr h2"
    and "get_password_hash env ''viewer123'' = Inr h3"
    and "seed env w =
      (if stdout_encodable env success_line then (Inr None, seeded_world h1 h2 h3 w)
       else (Inl UnicodeEncodeError, unprintable_world h1 h2 h3 w))"
proof -
  from assms(3) obtain h1 h2 h3 where h: "get_password_hash env ''admin123'' = Inr h1"
    "get_password_hash env ''manager123'' = Inr h2"
    "get_password_hash env ''viewer123'' = Inr h3"
    by (auto simp: login_credentials_def)
  show thesis
  proof (cases "stdout_encodable env success_line")
    case True
    with assms(1,2) h have "seed env w = (Inr None, seeded_world h1 h2 h3 w)"
      by (intro seed_succeeds) simp_all
    with True h show thesis by (intro that [of h1 h2 h3]) simp_all
  next
    case False
    with assms(1,2) h have "seed env w = (Inl UnicodeEncodeError, unprintable_world h1 h2 h3 w)"
      by (intro seed_unprintable) simp_all
    with False h show thesis by (intro that [of h1 h2 h3]) simp_all
  qed
qed

lemma store_unprintable_world:
  "store (unprintable_world h1 h2 h3 w) = store (seeded_world h1 h2 h3 w)"
  by (simp add: unprintable_world_def)

lemma journal_unprintable_world:
  "journal (unprintable_world h1 h2 h3 w) = journal (seeded_world h1 h2 h3 w)"
  by (simp add: unprintable_world_def)

lemma journal_seeded_world:
  "journal (seeded_world h1 h2 h3 w) = journal w @ map (\<lambda>c. (c, None)) seed_calls"
  by (simp add: seeded_world_def)

lemma journal_failed_world: "journal (failed_world k e db w) = journal w @ failed_at k e"
  by (simp add: failed_world_def)

lemma store_failed_world: "store (failed_world k e db w) = db"
  by (simp add: failed_world_def)

text \<open>What the store of a run can be: as it was, with the accounts only, or with everything.\<close>

lemma seed_store_cases [case_names untouched accounts complete]:
  obtains
    (untouched) "store (snd (seed env w)) = store w"
      and "count_user_ids (store w) = 0 \<longrightarrow> (\<exists>e. fst (seed env w) = Inl e)"
  | (accounts) h1 h2 h3 where "get_password_hash env ''admin123'' = Inr h1"
      and "get_password_hash env ''manager123'' = Inr h2"
      and "get_password_hash env ''viewer123'' = Inr h3"
      and "store (snd (seed env w)) = after_accounts h1 h2 h3 (store w)"
      and "\<exists>e. fst (seed env w) = Inl e"
  | (complete) h1 h2 h3 where "get_password_hash env ''admin123'' = Inr h1"
      and "get_password_hash env ''manager123'' = Inr h2"
      and "get_password_hash env ''viewer123'' = Inr h3"
      and "store (snd (seed env w)) = store (seeded_world h1 h2 h3 w)"
proof (cases rule: seed_cases [of w env])
  case skipped
  then show ?thesis by (intro untouched) (simp_all add: skipped_world_def)
next
  case (failed k e db)
  show ?thesis
  proof (cases "k < 9")
    case True
    with failed(2,4) show ?thesis by (intro untouched) (simp_all add: store_failed_world)
  next
    case False
    with failed(2) obtain h1 h2 h3 where "get_password_hash env ''admin123'' = Inr h1"
      and "get_password_hash env ''manager123'' = Inr h2"
      and "get_password_hash env ''viewer123'' = Inr h3"
      and "db = after_accounts h1 h2 h3 (store w)"
      by auto
    with failed(4) show ?thesis
      by (intro accounts [of h1 h2 h3]) (simp_all add: store_failed_world)
  qed
next
  case (unprintable h1 h2 h3)
  then show ?thesis
    by (intro complete [of h1 h2 h3]) (simp_all add: store_unprintable_world)
next
  case (seeded h1 h2 h3)
  then show ?thesis by (intro complete [of h1 h2 h3]) simp_all
qed

lemma created_untouched:
  assumes "store w' = store w"
  shows "created_users w w' = []" and "created_projects w w' = []"
  using assms by (simp_all add: created_users_def created_projects_def)

lemma created_accounts:
  assumes "store w' = after_accounts h1 h2 h3 (store w)"
  shows "created_users w w' = seeded_users h1 h2 h3 (users_id_seq (store w))"
    and "created_projects w w' = []"
  using assms by (simp_all add: created_users_def created_projects_def after_accounts_def)

lemma created_complete:
  assumes "store w' = store (seeded_world h1 h2 h3 w)"
  shows "created_users w w' = seeded_users h1 h2 h3 (users_id_seq (store w))"
    and "created_projects w w' =
      seeded_projects (users_id_seq (store w)) (projects_id_seq (store w))"
    and "users (store w') = users (store w) @ created_users w w'"
    and "projects (store w') = projects (store w) @ created_projects w w'"
  using assms by (simp_all add: created_users_def created_projects_def seeded_world_def)

lemma seed_nothing_fails_store:
  assumes "count_user_ids (store w) = 0"
    and "\<forall>db c. fault env db c = None"
    and "\<forall>p \<in> set (map snd login_credentials). \<exists>h. get_password_hash env p = Inr h"
  obtains h1 h2 h3 where "get_password_hash env ''admin123'' = Inr h1"
    and "get_password_hash env ''manager123'' = Inr h2"
    and "get_password_hash env ''viewer123'' = Inr h3"
    and "store (snd (seed env w)) = store (seeded_world h1 h2 h3 w)"
    and "fst (seed env w) =
      (if stdout_encodable env success_line then Inr None else Inl UnicodeEncodeError)"
    and "printed w (snd (seed env w)) =
      (if stdout_encodable env success_line then seed_report else take 3 seed_report)"
    and "calls_made w (snd (seed env w)) = map (\<lambda>c. (c, None)) seed_calls"
proof -
  from assms obtain h1 h2 h3 where h: "get_password_hash env ''admin123'' = Inr h1"
    "get_password_hash env ''manager123'' = Inr h2"
    "get_password_hash env ''viewer123'' = Inr h3"
    and s: "seed env w =
      (if stdout_encodable env success_line then (Inr None, seeded_world h1 h2 h3 w)
       else (Inl UnicodeEncodeError, unprintable_world h1 h2 h3 w))"
    by (rule seed_nothing_fails)
  from h show thesis
  proof (rule that)
    from s show "store (snd (seed env w)) = store (seeded_world h1 h2 h3 w)"
      by (simp add: store_unprintable_world)
    from s show "fst (seed env w) =
        (if stdout_encodable env success_line then Inr None else Inl UnicodeEncodeError)"
      by simp
    from s show "printed w (snd (seed env w)) =
        (if stdout_encodable env success_line then seed_report else take 3 seed_report)"
      by (simp add: printed_def unprintable_world_def seeded_world_def)
    from s show "calls_made w (snd (seed env w)) = map (\<lambda>c. (c, None)) seed_calls"
      by (simp add: calls_made_def journal_unprintable_world journal_seeded_world)
  qed
qed

subsection \<open>Concrete runs\<close>

lemma world_empty_count: "count_user_ids (store world_empty) = 0"
  by (simp add: world_empty_def count_user_ids_def)

lemma world_empty_tables: "users (store world_empty) = []" "projects (store world_empty) = []"
  by (simp_all add: world_empty_def)

lemma world_one_user_count: "count_user_ids (store world_one_user) = 1"
  by (simp add: world_one_user_def count_user_ids_def)

lemma env_ok_nothing_fails:
  "\<forall>db c. fault env_ok db c = None"
  "\<forall>p \<in> set (map snd login_credentials). \<exists>h. get_password_hash env_ok p = Inr h"
  "stdout_encodable env_ok success_line"
  by (simp_all add: env_ok_def)

lemma env_ascii_stdout_nothing_fails:
  "\<forall>db c. fault env_ascii_stdout db c = None"
  "\<forall>p \<in> set (map snd login_credentials). \<exists>h. get_password_hash env_ascii_stdout p = Inr h"
  "\<not> stdout_encodable env_ascii_stdout success_line"
  by (simp_all add: env_ascii_stdout_def env_ok_def)

lemma env_ok_contract: "hasher_contract env_ok"
  by (auto simp: hasher_contract_def env_ok_def)

lemma env_disk_full_contract: "hasher_contract env_disk_full"
  by (auto simp: hasher_contract_def env_disk_full_def)

lemma seed_env_ok_world_empty:
  "seed env_ok world_empty =
     (Inr None,
      seeded_world ''$2b$12$admin123'' ''$2b$12$manager123'' ''$2b$12$viewer123'' world_empty)"
  by (rule seed_succeeds) (simp_all add: env_ok_def world_empty_def count_user_ids_def)

lemma seed_env_ascii_stdout_world_empty:
  "seed env_ascii_stdout world_empty =
     (Inl UnicodeEncodeError,
      unprintable_world ''$2b$12$admin123'' ''$2b$12$manager123'' ''$2b$12$viewer123''
        world_empty)"
  by (rule seed_unprintable)
    (simp_all add: env_ascii_stdout_def env_ok_def world_empty_def count_user_ids_def)

lemma seed_env_disk_full_world_empty:
  "seed env_disk_full world_empty =
     (Inl (StorageError ''disk full''),
      failed_world 15 (StorageError ''disk full'')
        (after_accounts ''$2b$12$admin123'' ''$2b$12$manager123'' ''$2b$12$viewer123''
           (store world_empty))
        world_empty)"
  by (rule seed_fails_commit_projects)
    (simp_all add: env_disk_full_def world_empty_def count_user_ids_def after_accounts_def
      seeded_users_def)

lemma seed_env_ok_world_one_user:
  "seed env_ok world_one_user = (Inr None, skipped_world world_one_user)"
  by (rule seed_skips) (simp_all add: world_one_user_count env_ok_def)

lemma seeded_world_count:
  "count_user_ids (store w) = 0 \<Longrightarrow> count_user_ids (store (seeded_world h1 h2 h3 w)) = 3"
  by (simp add: count_user_ids_def seeded_world_def seeded_users_def)

lemma seed_env_ok_again:
  "seed env_ok
     (seeded_world ''$2b$12$admin123'' ''$2b$12$manager123'' ''$2b$12$viewer123'' world_empty) =
   (Inr None,
    skipped_world
      (seeded_world ''$2b$12$admin123'' ''$2b$12$manager123'' ''$2b$12$viewer123'' world_empty))"
  by (rule seed_skips) (simp_all add: seeded_world_count world_empty_count env_ok_def)

lemma str_int_1: "str_int 1 = ''1''"
  by code_simp

lemma str_int_3: "str_int 3 = ''3''"
  by code_simp

subsection \<open>Facts the properties share\<close>

lemma seed_skips_unfolded:
  assumes "count_user_ids (store w) > 0" and "fault env (store w) Execute_select_count = None"
  shows "fst (seed env w) = Inr None \<and> store (snd (seed env w)) = store w \<and>
    calls_made w (snd (seed env w)) = [(Execute_select_count, None)] \<and>
    printed w (snd (seed env w)) =
      [''Database already has '' @ str_int (count_user_ids (store w)) @ '' users. Skipping seed.'']"
  using seed_skips [OF assms]
  by (simp add: skipped_world_def calls_made_def printed_def)

lemma raised_returned: "raised (map (\<lambda>c. (c, None)) cs @ xs) = raised xs"
  by (induction cs) simp_all

lemma ends_at_raise_returned: "ends_at_raise (map (\<lambda>c. (c, None)) cs @ xs) = ends_at_raise xs"
  by (induction cs) simp_all

lemma raised_failed_at: "raised (failed_at k e) = Some e"
  by (simp add: failed_at_def raised_returned)

lemma ends_at_raise_failed_at: "ends_at_raise (failed_at k e)"
  by (simp add: failed_at_def ends_at_raise_returned)

lemma set_failed_at:
  "(c, Some e') \<in> set (failed_at k e) \<longleftrightarrow> c = seed_calls ! k \<and> e' = e"
  by (auto simp: failed_at_def)

lemma early_calls: "\<forall>c \<in> set (take 9 seed_calls). \<not> needs_accounts c"
  by (simp add: seed_calls_def)

lemma length_seed_calls: "length seed_calls = 16"
  by (simp add: seed_calls_def)

lemma failed_early:
  assumes "k < 9" and "x \<in> set (failed_at k e)"
  shows "\<not> needs_accounts (fst x)"
proof -
  from assms(2) consider "fst x \<in> set (take k seed_calls)" | "fst x = seed_calls ! k"
    by (auto simp: failed_at_def)
  then have "fst x \<in> set (take 9 seed_calls)"
  proof cases
    case 1
    with assms(1) set_take_subset_set_take [of k 9 seed_calls] show ?thesis by auto
  next
    case 2
    from assms(1) have "take 9 seed_calls ! k \<in> set (take 9 seed_calls)"
      by (intro nth_mem) (simp add: length_seed_calls)
    with assms(1) 2 show ?thesis by simp
  qed
  with early_calls show ?thesis by blast
qed

lemma failed_late:
  assumes "9 \<le> k" and "k < 16"
  shows "take 9 (failed_at k e) = map (\<lambda>c. (c, None)) (take 9 seed_calls)"
  using assms by (simp add: failed_at_def length_seed_calls take_map min_def)

lemma needs_accounts_after:
  assumes "L = pre @ (c, r) # post" and "needs_accounts c"
    and "\<forall>x \<in> set (take n L). \<not> needs_accounts (fst x)"
  shows "n \<le> length pre \<and> take n pre = take n L"
proof -
  have "n \<le> length pre"
  proof (rule ccontr)
    assume "\<not> n \<le> length pre"
    then have less: "length pre < n" by simp
    then have "take n L ! length pre = L ! length pre" by (rule nth_take)
    also from assms(1) have "\<dots> = (c, r)" by simp
    finally have "take n L ! length pre = (c, r)" .
    moreover from less assms(1) have "length pre < length (take n L)" by simp
    ultimately have "(c, r) \<in> set (take n L)" by (metis nth_mem)
    with assms(2,3) show False by auto
  qed
  with assms(1) show ?thesis by simp
qed

section \<open>Properties of the seed script\<close>

text \<open>
  C1, as amended: on a store with no users, when the storage fails no request and the
  hasher hashes the three plaintexts, the run appends exactly three accounts and exactly
  three projects to what the store held and reports the counts on standard output as
  "Created 3 users" and "Created 3 projects". It then returns \<^verbatim>\<open>None\<close> when
  standard output can encode the line with U+2705 that the script prints next, and
  raises \<^verbatim>\<open>UnicodeEncodeError\<close> otherwise. The script builds no outcome object.
\<close>

theorem seed_empty_store_seeds:
  assumes "count_user_ids (store w) = 0"
    and "\<forall>db c. fault env db c = None"
    and "\<forall>p \<in> set (map snd login_credentials). \<exists>h. get_password_hash env p = Inr h"
  shows "fst (seed env w) =
       (if stdout_encodable env success_line then Inr None else Inl UnicodeEncodeError) \<and>
     users (store (snd (seed env w))) = users (store w) @ created_users w (snd (seed env w)) \<and>
     length (created_users w (snd (seed env w))) = 3 \<and>
     projects (store (snd (seed env w))) =
       projects (store w) @ created_projects w (snd (seed env w)) \<and>
     length (created_projects w (snd (seed env w))) = 3 \<and>
     ''Created 3 users'' \<in> set (printed w (snd (seed env w))) \<and>
     ''Created 3 projects'' \<in> set (printed w (snd (seed env w)))"
proof -
  from assms obtain h1 h2 h3
    where s: "store (snd (seed env w)) = store (seeded_world h1 h2 h3 w)"
    and r: "fst (seed env w) =
      (if stdout_encodable env success_line then Inr None else Inl UnicodeEncodeError)"
    and p: "printed w (snd (seed env w)) =
      (if stdout_encodable env success_line then seed_report else take 3 seed_report)"
    by (rule seed_nothing_fails_store)
  from p have "''Created 3 users'' \<in> set (printed w (snd (seed env w)))"
    and "''Created 3 projects'' \<in> set (printed w (snd (seed env w)))"
    by (simp_all add: seed_report_def)
  with r created_complete [OF s] show ?thesis
    by (simp add: seeded_users_def seeded_projects_def)
qed

theorem seed_empty_store_seeds_witness:
  "count_user_ids (store world_empty) = 0 \<and>
   fst (seed env_ok world_empty) = Inr None \<and>
   length (created_users world_empty (snd (seed env_ok world_empty))) = 3 \<and>
   length (created_projects world_empty (snd (seed env_ok world_empty))) = 3 \<and>
   ''Created 3 users'' \<in> set (printed world_empty (snd (seed env_ok world_empty))) \<and>
   ''Created 3 projects'' \<in> set (printed world_empty (snd (seed env_ok world_empty))) \<and>
   fst (seed env_ascii_stdout world_empty) = Inl UnicodeEncodeError \<and>
   length (created_users world_empty (snd (seed env_ascii_stdout world_empty))) = 3 \<and>
   length (created_projects world_empty (snd (seed env_ascii_stdout world_empty))) = 3"
  using seed_empty_store_seeds [OF world_empty_count env_ok_nothing_fails(1,2)]
    seed_empty_store_seeds [OF world_empty_count env_ascii_stdout_nothing_fails(1,2)]
  by (simp add: world_empty_count env_ok_nothing_fails(3) env_ascii_stdout_nothing_fails(3))

text \<open>
  C1 as stated fails: the run on the empty store returns \<^verbatim>\<open>None\<close>, not an outcome
  \<^verbatim>\<open>Seeded(3, 3)\<close>.
\<close>

theorem seed_empty_store_returns_no_outcome:
  "count_user_ids (store world_empty) = 0 \<and>
   fst (seed env_ok world_empty) = Inr None \<and>
   fst (seed env_ok world_empty) \<noteq> Inr (Some (Seeded 3 3))"
  by (simp add: seed_env_ok_world_empty world_empty_count)

text \<open>
  C2, as amended: on a store that already has users, a run writes nothing: the store
  is left as it was and the only call the run makes is the count query. When that query
  returns, the run returns \<^verbatim>\<open>None\<close> and prints the number of users it found, in
  "Database already has N users. Skipping seed."; it builds no outcome object.
\<close>

theorem seed_nonempty_store_skips:
  assumes "count_user_ids (store w) > 0"
  shows "store (snd (seed env w)) = store w \<and>
     (\<forall>x \<in> set (calls_made w (snd (seed env w))). fst x = Execute_select_count) \<and>
     (fault env (store w) Execute_select_count = None \<longrightarrow>
        fst (seed env w) = Inr None \<and>
        printed w (snd (seed env w)) =
          [''Database already has '' @ str_int (count_user_ids (store w)) @
           '' users. Skipping seed.''])"
proof (cases "fault env (store w) Execute_select_count")
  case None
  from seed_skips_unfolded [OF assms this] show ?thesis by simp
next
  case (Some e)
  from seed_fails_count [OF this] Some show ?thesis
    by (simp add: failed_world_def failed_at_def seed_calls_def calls_made_def)
qed

theorem seed_nonempty_store_skips_witness:
  "count_user_ids (store world_one_user) = 1 \<and>
   store (snd (seed env_ok world_one_user)) = store world_one_user \<and>
   calls_made world_one_user (snd (seed env_ok world_one_user)) = [(Execute_select_count, None)] \<and>
   fst (seed env_ok world_one_user) = Inr None \<and>
   printed world_one_user (snd (seed env_ok world_one_user)) =
     [''Database already has 1 users. Skipping seed.'']"
proof -
  have "fault env_ok (store world_one_user) Execute_select_count = None"
    by (simp add: env_ok_def)
  with seed_nonempty_store_skips [of world_one_user env_ok] show ?thesis
    by (simp add: world_one_user_count str_int_1 seed_env_ok_world_one_user skipped_world_def
        calls_made_def)
qed

text \<open>
  C2 as stated fails: on a store with one user the run returns \<^verbatim>\<open>None\<close>, not an
  outcome \<^verbatim>\<open>Skipped(1)\<close>.
\<close>

theorem seed_nonempty_store_returns_no_outcome:
  "count_user_ids (store world_one_user) = 1 \<and>
   fst (seed env_ok world_one_user) = Inr None \<and>
   fst (seed env_ok world_one_user) \<noteq> Inr (Some (Skipped 1))"
  by (simp add: seed_env_ok_world_one_user world_one_user_count)

text \<open>
  C3, as amended: two runs in sequence on an empty store, the first returning and the
  count query of the second not failing, leave exactly three accounts and three
  projects; the second run writes nothing, makes the count query only, returns
  \<^verbatim>\<open>None\<close> and prints "Database already has 3 users. Skipping seed.".
\<close>

theorem seed_twice:
  assumes "users (store w) = []" and "projects (store w) = []"
    and "fst (seed env w) = Inr r"
    and "fault env' (store (snd (seed env w))) Execute_select_count = None"
  shows "fst (seed env' (snd (seed env w))) = Inr None \<and>
     store (snd (seed env' (snd (seed env w)))) = store (snd (seed env w)) \<and>
     length (users (store (snd (seed env' (snd (seed env w)))))) = 3 \<and>
     length (projects (store (snd (seed env' (snd (seed env w)))))) = 3 \<and>
     calls_made (snd (seed env w)) (snd (seed env' (snd (seed env w)))) =
       [(Execute_select_count, None)] \<and>
     printed (snd (seed env w)) (snd (seed env' (snd (seed env w)))) =
       [''Database already has 3 users. Skipping seed.'']"
proof -
  from assms(1) have z: "count_user_ids (store w) = 0"
    by (simp add: count_user_ids_def)
  from z assms(3) obtain h1 h2 h3 where s: "seed env w = (Inr None, seeded_world h1 h2 h3 w)"
    by (rule seed_returns)
  let ?w1 = "seeded_world h1 h2 h3 w"
  from z have c: "count_user_ids (store ?w1) = 3" by (rule seeded_world_count)
  then have "count_user_ids (store ?w1) > 0" by simp
  moreover from assms(4) s have "fault env' (store ?w1) Execute_select_count = None" by simp
  ultimately have "fst (seed env' ?w1) = Inr None \<and> store (snd (seed env' ?w1)) = store ?w1 \<and>
    calls_made ?w1 (snd (seed env' ?w1)) = [(Execute_select_count, None)] \<and>
    printed ?w1 (snd (seed env' ?w1)) =
      [''Database already has '' @ str_int (count_user_ids (store ?w1)) @ '' users. Skipping seed.'']"
    by (rule seed_skips_unfolded)
  with s c assms(1,2) show ?thesis
    by (simp add: str_int_3) (simp add: seeded_world_def seeded_users_def seeded_projects_def)
qed

theorem seed_twice_witness:
  "users (store world_empty) = [] \<and> projects (store world_empty) = [] \<and>
   fst (seed env_ok world_empty) = Inr None \<and>
   fst (seed env_ok (snd (seed env_ok world_empty))) = Inr None \<and>
   store (snd (seed env_ok (snd (seed env_ok world_empty)))) = store (snd (seed env_ok world_empty)) \<and>
   length (users (store (snd (seed env_ok (snd (seed env_ok world_empty)))))) = 3 \<and>
   length (projects (store (snd (seed env_ok (snd (seed env_ok world_empty)))))) = 3 \<and>
   printed (snd (seed env_ok world_empty)) (snd (seed env_ok (snd (seed env_ok world_empty)))) =
     [''Database already has 3 users. Skipping seed.'']"
proof -
  have "users (store world_empty) = []" and "projects (store world_empty) = []"
    by (simp_all add: world_empty_def)
  moreover have "fst (seed env_ok world_empty) = Inr None"
    by (simp add: seed_env_ok_world_empty)
  moreover have "fault env_ok (store (snd (seed env_ok world_empty))) Execute_select_count = None"
    by (simp add: env_ok_def)
  ultimately show ?thesis
    using seed_twice [of world_empty env_ok None env_ok] by blast
qed

text \<open>
  C3 as stated fails: the second run returns \<^verbatim>\<open>None\<close>, not an outcome
  \<^verbatim>\<open>Skipped(3)\<close>.
\<close>

theorem seed_twice_returns_no_outcome:
  "fst (seed env_ok world_empty) = Inr None \<and>
   fst (seed env_ok (snd (seed env_ok world_empty))) = Inr None \<and>
   fst (seed env_ok (snd (seed env_ok world_empty))) \<noteq> Inr (Some (Skipped 3))"
  by (simp add: seed_env_ok_world_empty seed_env_ok_again)

text \<open>
  C4: in every run, whether it returns or raises, the owner identifier of every project
  the run creates is the identifier of an account the same run created, and the created
  accounts have identifiers that differ from each other, so no project points at an
  account that is missing or at one the run did not create. On a store with no users a
  run that returns has created three projects, and so has a run in which the storage
  fails no request and the hasher hashes the three plaintexts.
\<close>

theorem seed_projects_owned_by_seeded_users:
  "(\<forall>p \<in> set (created_projects w (snd (seed env w))).
      \<exists>u \<in> set (created_users w (snd (seed env w))).
        user_id u \<noteq> None \<and> owner_id p = user_id u) \<and>
   distinct (map user_id (created_users w (snd (seed env w)))) \<and>
   (count_user_ids (store w) = 0 \<and> (\<exists>r. fst (seed env w) = Inr r) \<longrightarrow>
      length (created_projects w (snd (seed env w))) = 3) \<and>
   (count_user_ids (store w) = 0 \<and> (\<forall>db c. fault env db c = None) \<and>
    (\<forall>p \<in> set (map snd login_credentials). \<exists>h. get_password_hash env p = Inr h) \<longrightarrow>
      length (created_projects w (snd (seed env w))) = 3)"
proof -
  have always: "(\<forall>p \<in> set (created_projects w (snd (seed env w))).
      \<exists>u \<in> set (created_users w (snd (seed env w))).
        user_id u \<noteq> None \<and> owner_id p = user_id u) \<and>
    distinct (map user_id (created_users w (snd (seed env w)))) \<and>
    (count_user_ids (store w) = 0 \<and> (\<exists>r. fst (seed env w) = Inr r) \<longrightarrow>
      length (created_projects w (snd (seed env w))) = 3)"
  proof (cases rule: seed_store_cases [of env w])
    case untouched
    with created_untouched [OF untouched(1)] show ?thesis by auto
  next
    case (accounts h1 h2 h3)
    with created_accounts [OF accounts(4)] show ?thesis
      by (auto simp: seeded_users_def)
  next
    case (complete h1 h2 h3)
    with created_complete [OF complete(4)] show ?thesis
      by (simp add: seeded_users_def seeded_projects_def)
  qed
  have "length (created_projects w (snd (seed env w))) = 3"
    if "count_user_ids (store w) = 0" and "\<forall>db c. fault env db c = None"
      and "\<forall>p \<in> set (map snd login_credentials). \<exists>h. get_password_hash env p = Inr h"
  proof -
    from that obtain h1 h2 h3
      where "store (snd (seed env w)) = store (seeded_world h1 h2 h3 w)"
      by (rule seed_nothing_fails_store)
    from created_complete(2) [OF this] show ?thesis by (simp add: seeded_projects_def)
  qed
  with always show ?thesis by blast
qed

theorem seed_projects_owned_by_seeded_users_witness:
  "count_user_ids (store world_empty) = 0 \<and> fst (seed env_ok world_empty) = Inr None \<and>
   length (created_projects world_empty (snd (seed env_ok world_empty))) = 3 \<and>
   list_all (\<lambda>p. list_ex (\<lambda>u. user_id u \<noteq> None \<and> owner_id p = user_id u)
                 (created_users world_empty (snd (seed env_ok world_empty))))
     (created_projects world_empty (snd (seed env_ok world_empty))) \<and>
   distinct (map user_id (created_users world_empty (snd (seed env_ok world_empty))))"
  using seed_projects_owned_by_seeded_users [of world_empty env_ok]
  by (simp add: seed_env_ok_world_empty world_empty_count list_all_iff list_ex_iff)

text \<open>
  C5: for every account a run creates, whether the run returns or raises afterwards,
  the stored hash is what the hasher returned for that account's plaintext; when the
  hasher keeps its contract, the stored hash is not the plaintext and verifying the
  plaintext against it succeeds. A run creates no account or the three accounts of the
  login pairs; on a store with no users it creates the three when it returns, and when
  the storage fails no request and the hasher hashes the three plaintexts.
\<close>

theorem seed_stores_hashes:
  assumes "hasher_contract env"
  shows "(created_users w (snd (seed env w)) = [] \<or>
      map email (created_users w (snd (seed env w))) = map fst login_credentials) \<and>
     (\<forall>(u, secret) \<in> set (zip (created_users w (snd (seed env w))) (map snd login_credentials)).
        get_password_hash env secret = Inr (hashed_password u) \<and>
        hashed_password u \<noteq> secret \<and>
        verify env secret (hashed_password u)) \<and>
     (count_user_ids (store w) = 0 \<and> (\<exists>r. fst (seed env w) = Inr r) \<longrightarrow>
        map email (created_users w (snd (seed env w))) = map fst login_credentials) \<and>
     (count_user_ids (store w) = 0 \<and> (\<forall>db c. fault env db c = None) \<and>
      (\<forall>p \<in> set (map snd login_credentials). \<exists>h. get_password_hash env p = Inr h) \<longrightarrow>
        map email (created_users w (snd (seed env w))) = map fst login_credentials)"
proof -
  have three: "map email (seeded_users h1 h2 h3 n) = map fst login_credentials \<and>
     (\<forall>(u, secret) \<in> set (zip (seeded_users h1 h2 h3 n) (map snd login_credentials)).
        get_password_hash env secret = Inr (hashed_password u) \<and>
        hashed_password u \<noteq> secret \<and>
        verify env secret (hashed_password u))"
    if h: "get_password_hash env ''admin123'' = Inr h1"
      "get_password_hash env ''manager123'' = Inr h2"
      "get_password_hash env ''viewer123'' = Inr h3"
    for h1 h2 h3 n
  proof -
    from h assms have "h1 \<noteq> ''admin123'' \<and> verify env ''admin123'' h1"
      and "h2 \<noteq> ''manager123'' \<and> verify env ''manager123'' h2"
      and "h3 \<noteq> ''viewer123'' \<and> verify env ''viewer123'' h3"
      unfolding hasher_contract_def by blast+
    with h show ?thesis
      by (simp add: seeded_users_def login_credentials_def)
  qed
  have always: "(created_users w (snd (seed env w)) = [] \<or>
      map email (created_users w (snd (seed env w))) = map fst login_credentials) \<and>
     (\<forall>(u, secret) \<in> set (zip (created_users w (snd (seed env w))) (map snd login_credentials)).
        get_password_hash env secret = Inr (hashed_password u) \<and>
        hashed_password u \<noteq> secret \<and>
        verify env secret (hashed_password u)) \<and>
     (count_user_ids (store w) = 0 \<and> (\<exists>r. fst (seed env w) = Inr r) \<longrightarrow>
        map email (created_users w (snd (seed env w))) = map fst login_credentials)"
  proof (cases rule: seed_store_cases [of env w])
    case untouched
    with created_untouched(1) [OF untouched(1)] show ?thesis by auto
  next
    case (accounts h1 h2 h3)
    from three [OF accounts(1-3)] created_accounts(1) [OF accounts(4)] show ?thesis
      by simp
  next
    case (complete h1 h2 h3)
    from three [OF complete(1-3)] created_complete(1) [OF complete(4)] show ?thesis
      by simp
  qed
  have "map email (created_users w (snd (seed env w))) = map fst login_credentials"
    if "count_user_ids (store w) = 0" and "\<forall>db c. fault env db c = None"
      and "\<forall>p \<in> set (map snd login_credentials). \<exists>h. get_password_hash env p = Inr h"
  proof -
    from that obtain h1 h2 h3
      where "store (snd (seed env w)) = store (seeded_world h1 h2 h3 w)"
      by (rule seed_nothing_fails_store)
    from created_complete(1) [OF this] show ?thesis
      by (simp add: seeded_users_def login_credentials_def)
  qed
  with always show ?thesis by blast
qed

theorem seed_stores_hashes_witness:
  "count_user_ids (store world_empty) = 0 \<and> fst (seed env_ok world_empty) = Inr None \<and>
   map email (created_users world_empty (snd (seed env_ok world_empty))) =
     map fst login_credentials \<and>
   list_all (\<lambda>(u, secret).
       get_password_hash env_ok secret = Inr (hashed_password u) \<and>
       hashed_password u \<noteq> secret \<and> verify env_ok secret (hashed_password u))
     (zip (created_users world_empty (snd (seed env_ok world_empty)))
        (map snd login_credentials)) \<and>
   fst (seed env_disk_full world_empty) = Inl (StorageError ''disk full'') \<and>
   length (created_users world_empty (snd (seed env_disk_full world_empty))) = 3 \<and>
   list_all (\<lambda>(u, secret).
       get_password_hash env_disk_full secret = Inr (hashed_password u) \<and>
       hashed_password u \<noteq> secret \<and> verify env_disk_full secret (hashed_password u))
     (zip (created_users world_empty (snd (seed env_disk_full world_empty)))
        (map snd login_credentials))"
proof -
  have "length (created_users world_empty (snd (seed env_disk_full world_empty))) = 3"
    by (simp add: seed_env_disk_full_world_empty created_users_def store_failed_world
        after_accounts_def seeded_users_def)
  with seed_stores_hashes [OF env_ok_contract, of world_empty]
    seed_stores_hashes [OF env_disk_full_contract, of world_empty]
  show ?thesis
    by (simp add: seed_env_ok_world_empty world_empty_count list_all_iff
        seed_env_disk_full_world_empty)
qed

text \<open>
  C6: after one run on an empty store in which the storage fails no request and the
  hasher hashes the three plaintexts, the store holds exactly three accounts; the
  account with email admin@example.com has the role admin (the specification's
  administrator) and owns exactly the projects "Website Redesign" and "API
  Integration"; the account manager@example.com has the role manager and owns exactly
  the project "Mobile App", which is a draft with budget 10,000,000. The run returns
  when standard output can encode its success line and raises
  \<^verbatim>\<open>UnicodeEncodeError\<close>, with the store as described, when it cannot.
\<close>

theorem seed_end_to_end:
  assumes "users (store w) = []" and "projects (store w) = []"
    and "\<forall>db c. fault env db c = None"
    and "\<forall>p \<in> set (map snd login_credentials). \<exists>h. get_password_hash env p = Inr h"
  shows "count_user_ids (store (snd (seed env w))) = 3 \<and>
     length (users (store (snd (seed env w)))) = 3 \<and>
     map role (filter (\<lambda>u. email u = ''admin@example.com'') (users (store (snd (seed env w))))) =
       [UserRole_admin] \<and>
     map name (owned_by (store (snd (seed env w))) ''admin@example.com'') =
       [''Website Redesign'', ''API Integration''] \<and>
     map role (filter (\<lambda>u. email u = ''manager@example.com'') (users (store (snd (seed env w))))) =
       [UserRole_manager] \<and>
     map (\<lambda>p. (name p, status p, budget p)) (owned_by (store (snd (seed env w))) ''manager@example.com'') =
       [(''Mobile App'', ProjectStatus_draft, 10000000)] \<and>
     fst (seed env w) =
       (if stdout_encodable env success_line then Inr None else Inl UnicodeEncodeError)"
proof -
  from assms(1) have "count_user_ids (store w) = 0"
    by (simp add: count_user_ids_def)
  from this assms(3,4) obtain h1 h2 h3
    where s: "store (snd (seed env w)) = store (seeded_world h1 h2 h3 w)"
    and r: "fst (seed env w) =
      (if stdout_encodable env success_line then Inr None else Inl UnicodeEncodeError)"
    by (rule seed_nothing_fails_store)
  from assms(1,2) have "store (seeded_world h1 h2 h3 w) =
      \<lparr>users = seeded_users h1 h2 h3 (users_id_seq (store w)),
       projects = seeded_projects (users_id_seq (store w)) (projects_id_seq (store w)),
       users_id_seq = users_id_seq (store w) + 1 + 1 + 1,
       projects_id_seq = projects_id_seq (store w) + 1 + 1 + 1\<rparr>"
    by (simp add: seeded_world_def)
  with s r show ?thesis
    by (simp add: seeded_users_def seeded_projects_def owned_by_def count_user_ids_def)
qed

theorem seed_end_to_end_witness:
  "users (store world_empty) = [] \<and> projects (store world_empty) = [] \<and>
   fst (seed env_ok world_empty) = Inr None \<and>
   count_user_ids (store (snd (seed env_ok world_empty))) = 3 \<and>
   map name (owned_by (store (snd (seed env_ok world_empty))) ''admin@example.com'') =
     [''Website Redesign'', ''API Integration''] \<and>
   map (\<lambda>p. (name p, status p, budget p))
     (owned_by (store (snd (seed env_ok world_empty))) ''manager@example.com'') =
     [(''Mobile App'', ProjectStatus_draft, 10000000)]"
  using seed_end_to_end [OF world_empty_tables env_ok_nothing_fails(1,2)]
  by (simp add: world_empty_tables env_ok_nothing_fails(3))

text \<open>
  C7: each project a run creates, whether the run returns or raises afterwards, has the
  budget the script writes for it, an integer number of cents: 5,000,000 for "Website
  Redesign", 10,000,000 for "Mobile App" and 2,500,000 for "API Integration". Budgets
  are integers throughout, so nothing is rounded. A run creates no project or these
  three; on a store with no users it creates the three when it returns, and when the
  storage fails no request and the hasher hashes the three plaintexts.
\<close>

theorem seed_budgets_exact:
  "(created_projects w (snd (seed env w)) = [] \<or>
    map (\<lambda>p. (name p, budget p)) (created_projects w (snd (seed env w))) =
      [(''Website Redesign'', 5000000), (''Mobile App'', 10000000),
       (''API Integration'', 2500000)]) \<and>
   (count_user_ids (store w) = 0 \<and> (\<exists>r. fst (seed env w) = Inr r) \<longrightarrow>
    map (\<lambda>p. (name p, budget p)) (created_projects w (snd (seed env w))) =
      [(''Website Redesign'', 5000000), (''Mobile App'', 10000000),
       (''API Integration'', 2500000)]) \<and>
   (count_user_ids (store w) = 0 \<and> (\<forall>db c. fault env db c = None) \<and>
    (\<forall>p \<in> set (map snd login_credentials). \<exists>h. get_password_hash env p = Inr h) \<longrightarrow>
    map (\<lambda>p. (name p, budget p)) (created_projects w (snd (seed env w))) =
      [(''Website Redesign'', 5000000), (''Mobile App'', 10000000),
       (''API Integration'', 2500000)])"
proof -
  let ?three = "[(''Website Redesign'', 5000000 :: int), (''Mobile App'', 10000000),
       (''API Integration'', 2500000)]"
  have always: "(created_projects w (snd (seed env w)) = [] \<or>
      map (\<lambda>p. (name p, budget p)) (created_projects w (snd (seed env w))) = ?three) \<and>
    (count_user_ids (store w) = 0 \<and> (\<exists>r. fst (seed env w) = Inr r) \<longrightarrow>
      map (\<lambda>p. (name p, budget p)) (created_projects w (snd (seed env w))) = ?three)"
  proof (cases rule: seed_store_cases [of env w])
    case untouched
    with created_untouched(2) [OF untouched(1)] show ?thesis by auto
  next
    case (accounts h1 h2 h3)
    with created_accounts(2) [OF accounts(4)] show ?thesis by auto
  next
    case (complete h1 h2 h3)
    with created_complete(2) [OF complete(4)] show ?thesis
      by (simp add: seeded_projects_def)
  qed
  have "map (\<lambda>p. (name p, budget p)) (created_projects w (snd (seed env w))) = ?three"
    if "count_user_ids (store w) = 0" and "\<forall>db c. fault env db c = None"
      and "\<forall>p \<in> set (map snd login_credentials). \<exists>h. get_password_hash env p = Inr h"
  proof -
    from that obtain h1 h2 h3
      where "store (snd (seed env w)) = store (seeded_world h1 h2 h3 w)"
      by (rule seed_nothing_fails_store)
    from created_complete(2) [OF this] show ?thesis by (simp add: seeded_projects_def)
  qed
  with always show ?thesis by blast
qed

theorem seed_budgets_exact_witness:
  "count_user_ids (store world_empty) = 0 \<and> fst (seed env_ok world_empty) = Inr None \<and>
   map (\<lambda>p. (name p, budget p)) (created_projects world_empty (snd (seed env_ok world_empty))) =
     [(''Website Redesign'', 5000000), (''Mobile App'', 10000000), (''API Integration'', 2500000)]"
  using seed_budgets_exact [of world_empty env_ok]
  by (simp add: seed_env_ok_world_empty world_empty_count)

text \<open>
  C8: in every run, before any call that reads a user back (to get its identifier) or
  constructs or adds a project, the run has counted, hashed and constructed the three
  users, added all three to the session and committed, each of these calls having
  returned, in this order; and the three accounts are in the store.
\<close>

theorem seed_accounts_committed_first:
  assumes "calls_made w (snd (seed env w)) = pre @ (c, r) # post" and "needs_accounts c"
  shows "(\<exists>d. pre =
       map (\<lambda>c. (c, None))
         [Execute_select_count,
          Get_password_hash ''admin123'', Construct (User_ref 0),
          Get_password_hash ''manager123'', Construct (User_ref 1),
          Get_password_hash ''viewer123'', Construct (User_ref 2),
          Add_all [User_ref 0, User_ref 1, User_ref 2], Commit] @ d) \<and>
     users (store (snd (seed env w))) = users (store w) @ created_users w (snd (seed env w)) \<and>
     length (created_users w (snd (seed env w))) = 3"
proof -
  let ?P = "map (\<lambda>c. (c, None)) (take 9 seed_calls) :: (call \<times> error option) list"
  let ?L = "calls_made w (snd (seed env w))"
  have far: "(\<exists>d. pre = ?P @ d)"
    if "take 9 ?L = ?P"
  proof -
    have "\<forall>x \<in> set (take 9 ?L). \<not> needs_accounts (fst x)"
      unfolding that by (simp add: seed_calls_def)
    from needs_accounts_after [OF assms this] that have "take 9 pre = ?P" by simp
    then have "pre = ?P @ drop 9 pre" by (metis append_take_drop_id)
    then show ?thesis ..
  qed
  have near: False
    if "\<forall>x \<in> set ?L. \<not> needs_accounts (fst x)"
    using that assms by auto
  have P: "?P = map (\<lambda>c. (c, None))
         [Execute_select_count,
          Get_password_hash ''admin123'', Construct (User_ref 0),
          Get_password_hash ''manager123'', Construct (User_ref 1),
          Get_password_hash ''viewer123'', Construct (User_ref 2),
          Add_all [User_ref 0, User_ref 1, User_ref 2], Commit]"
    by (simp add: seed_calls_def)
  have whole: ?thesis
    if L: "?L = map (\<lambda>c. (c, None)) seed_calls"
      and s: "store (snd (seed env w)) = store (seeded_world h1 h2 h3 w)"
    for h1 h2 h3
  proof -
    from L have "take 9 ?L = ?P" by (simp add: take_map)
    then have "\<exists>d. pre = ?P @ d" by (rule far)
    moreover from created_complete(1,3) [OF s]
    have "users (store (snd (seed env w))) =
        users (store w) @ created_users w (snd (seed env w)) \<and>
        length (created_users w (snd (seed env w))) = 3"
      by (simp add: seeded_users_def)
    ultimately show ?thesis unfolding P by blast
  qed
  show ?thesis
  proof (cases rule: seed_cases [of w env])
    case skipped
    then have "\<forall>x \<in> set ?L. \<not> needs_accounts (fst x)"
      by (simp add: skipped_world_def calls_made_def)
    then show ?thesis using near by blast
  next
    case (failed k e db)
    have L: "?L = failed_at k e"
      using failed(4) by (simp add: calls_made_def journal_failed_world)
    show ?thesis
    proof (cases "k < 9")
      case True
      then have "\<forall>x \<in> set ?L. \<not> needs_accounts (fst x)"
        unfolding L by (blast dest: failed_early)
      then show ?thesis using near by blast
    next
      case False
      with failed(1) have "take 9 ?L = ?P"
        unfolding L by (intro failed_late) auto
      then have "\<exists>d. pre = ?P @ d" by (rule far)
      moreover from False failed(2) obtain h1 h2 h3
        where "db = after_accounts h1 h2 h3 (store w)" by auto
      with failed(4) have "users (store (snd (seed env w))) =
          users (store w) @ created_users w (snd (seed env w)) \<and>
          length (created_users w (snd (seed env w))) = 3"
        by (simp add: store_failed_world created_users_def after_accounts_def seeded_users_def)
      ultimately show ?thesis unfolding P by blast
    qed
  next
    case (unprintable h1 h2 h3)
    then show ?thesis
      by (intro whole [of h1 h2 h3])
        (simp_all add: calls_made_def journal_unprintable_world journal_seeded_world
          store_unprintable_world)
  next
    case (seeded h1 h2 h3)
    then show ?thesis
      by (intro whole [of h1 h2 h3]) (simp_all add: calls_made_def journal_seeded_world)
  qed
qed

theorem seed_accounts_committed_first_witness:
  "calls_made world_empty (snd (seed env_ok world_empty)) =
     (map (\<lambda>c. (c, None))
        [Execute_select_count,
         Get_password_hash ''admin123'', Construct (User_ref 0),
         Get_password_hash ''manager123'', Construct (User_ref 1),
         Get_password_hash ''viewer123'', Construct (User_ref 2),
         Add_all [User_ref 0, User_ref 1, User_ref 2], Commit] @
      [(Refresh (User_ref 0), None), (Refresh (User_ref 1), None)]) @
     (Construct (Project_ref 0), None) #
     [(Construct (Project_ref 1), None), (Construct (Project_ref 2), None),
      (Add_all [Project_ref 0, Project_ref 1, Project_ref 2], None), (Commit, None)] \<and>
   needs_accounts (Construct (Project_ref 0)) \<and>
   length (created_users world_empty (snd (seed env_ok world_empty))) = 3"
proof -
  have c: "calls_made world_empty (snd (seed env_ok world_empty)) =
     (map (\<lambda>c. (c, None))
        [Execute_select_count,
         Get_password_hash ''admin123'', Construct (User_ref 0),
         Get_password_hash ''manager123'', Construct (User_ref 1),
         Get_password_hash ''viewer123'', Construct (User_ref 2),
         Add_all [User_ref 0, User_ref 1, User_ref 2], Commit] @
      [(Refresh (User_ref 0), None), (Refresh (User_ref 1), None)]) @
     (Construct (Project_ref 0), None) #
     [(Construct (Project_ref 1), None), (Construct (Project_ref 2), None),
      (Add_all [Project_ref 0, Project_ref 1, Project_ref 2], None), (Commit, None)]"
    by (simp add: seed_env_ok_world_empty calls_made_def journal_seeded_world seed_calls_def)
  have n: "needs_accounts (Construct (Project_ref 0))" by simp
  from seed_accounts_committed_first [OF c n] c n show ?thesis by blast
qed

text \<open>
  C9: in every run, whatever the storage and the hasher do, a call on them that raises
  is the last call the run makes (nothing is retried, caught or rolled back after it),
  the run raises exactly the exception that call raised and hands back no value, and
  that exception is the one the hasher or the storage gave for that call. When no such
  call raises, the run returns \<^verbatim>\<open>None\<close>, or it raises the
  \<^verbatim>\<open>UnicodeEncodeError\<close> of a standard output that cannot encode its success line.
\<close>

theorem seed_propagates_failures:
  "journal (snd (seed env w)) = journal w @ calls_made w (snd (seed env w)) \<and>
   ends_at_raise (calls_made w (snd (seed env w))) \<and>
   (\<forall>e. raised (calls_made w (snd (seed env w))) = Some e \<longrightarrow> fst (seed env w) = Inl e) \<and>
   (raised (calls_made w (snd (seed env w))) = None \<longrightarrow>
      fst (seed env w) = Inr None \<or>
      (fst (seed env w) = Inl UnicodeEncodeError \<and> \<not> stdout_encodable env success_line)) \<and>
   (\<forall>(c, r) \<in> set (calls_made w (snd (seed env w))). \<forall>e. r = Some e \<longrightarrow>
      (case c of
         Get_password_hash p \<Rightarrow> get_password_hash env p = Inl e
       | _ \<Rightarrow> fault env (store (snd (seed env w))) c = Some e))"
proof (cases rule: seed_cases [of w env])
  case skipped
  then show ?thesis
    by (simp add: skipped_world_def calls_made_def)
next
  case (failed k e db)
  have "calls_made w (failed_world k e db w) = failed_at k e"
    by (simp add: calls_made_def journal_failed_world)
  with failed(3,4) show ?thesis
    by (auto simp: journal_failed_world store_failed_world raised_failed_at
        ends_at_raise_failed_at set_failed_at split: call.splits)
next
  case (unprintable h1 h2 h3)
  have "calls_made w (unprintable_world h1 h2 h3 w) = map (\<lambda>c. (c, None)) seed_calls"
    by (simp add: calls_made_def journal_unprintable_world journal_seeded_world)
  with unprintable(5,6) show ?thesis
    by (auto simp: journal_unprintable_world journal_seeded_world
        raised_returned [of _ "[]", simplified]
        ends_at_raise_returned [of _ "[]", simplified])
next
  case (seeded h1 h2 h3)
  have "calls_made w (seeded_world h1 h2 h3 w) = map (\<lambda>c. (c, None)) seed_calls"
    by (simp add: calls_made_def journal_seeded_world)
  with seeded(6) show ?thesis
    by (auto simp: journal_seeded_world raised_returned [of _ "[]", simplified]
        ends_at_raise_returned [of _ "[]", simplified])
qed

theorem seed_propagates_failures_witness:
  "fst (seed env_disk_full world_empty) = Inl (StorageError ''disk full'') \<and>
   raised (calls_made world_empty (snd (seed env_disk_full world_empty))) =
     Some (StorageError ''disk full'') \<and>
   ends_at_raise (calls_made world_empty (snd (seed env_disk_full world_empty))) \<and>
   last (calls_made world_empty (snd (seed env_disk_full world_empty))) =
     (Commit, Some (StorageError ''disk full'')) \<and>
   fault env_disk_full (store (snd (seed env_disk_full world_empty))) Commit =
     Some (StorageError ''disk full'') \<and>
   raised (calls_made world_empty (snd (seed env_ok world_empty))) = None \<and>
   fst (seed env_ok world_empty) = Inr None \<and>
   raised (calls_made world_empty (snd (seed env_ascii_stdout world_empty))) = None \<and>
   fst (seed env_ascii_stdout world_empty) = Inl UnicodeEncodeError"
proof -
  let ?e = "StorageError ''disk full''"
  have cm: "calls_made world_empty (snd (seed env_disk_full world_empty)) = failed_at 15 ?e"
    by (simp add: seed_env_disk_full_world_empty calls_made_def journal_failed_world)
  have m: "(Commit, Some ?e) \<in> set (failed_at 15 ?e)"
    and l: "last (failed_at 15 ?e) = (Commit, Some ?e)"
    by (simp_all add: failed_at_def seed_calls_def)
  have r: "raised (failed_at 15 ?e) = Some ?e"
    by (rule raised_failed_at)
  from seed_propagates_failures [of env_disk_full world_empty] m
  have "fst (seed env_disk_full world_empty) = Inl ?e"
    and "ends_at_raise (failed_at 15 ?e)"
    and "fault env_disk_full (store (snd (seed env_disk_full world_empty))) Commit = Some ?e"
    unfolding cm r by auto
  moreover have "raised (calls_made world_empty (snd (seed env_ok world_empty))) = None"
    and "raised (calls_made world_empty (snd (seed env_ascii_stdout world_empty))) = None"
    by (simp_all add: seed_env_ok_world_empty seed_env_ascii_stdout_world_empty calls_made_def
        journal_unprintable_world journal_seeded_world raised_returned [of _ "[]", simplified])
  moreover have "fst (seed env_ok world_empty) = Inr None"
    and "fst (seed env_ascii_stdout world_empty) = Inl UnicodeEncodeError"
    by (simp_all add: seed_env_ok_world_empty seed_env_ascii_stdout_world_empty)
  ultimately show ?thesis using cm l r by simp
qed

text \<open>
  C10: every account a run creates, whether the run returns or raises afterwards, is
  active, and the accounts a run creates have emails that differ from each other: a run
  creates no account or the three accounts admin@example.com, manager@example.com and
  viewer@example.com. On a store with no users it creates the three when it returns, and
  when the storage fails no request and the hasher hashes the three plaintexts.
\<close>

theorem seed_users_active_distinct:
  "(\<forall>u \<in> set (created_users w (snd (seed env w))). is_active u) \<and>
   (created_users w (snd (seed env w)) = [] \<or>
    map email (created_users w (snd (seed env w))) =
      [''admin@example.com'', ''manager@example.com'', ''viewer@example.com'']) \<and>
   distinct (map email (created_users w (snd (seed env w)))) \<and>
   (count_user_ids (store w) = 0 \<and> (\<exists>r. fst (seed env w) = Inr r) \<longrightarrow>
    map email (created_users w (snd (seed env w))) =
      [''admin@example.com'', ''manager@example.com'', ''viewer@example.com'']) \<and>
   (count_user_ids (store w) = 0 \<and> (\<forall>db c. fault env db c = None) \<and>
    (\<forall>p \<in> set (map snd login_credentials). \<exists>h. get_password_hash env p = Inr h) \<longrightarrow>
    map email (created_users w (snd (seed env w))) =
      [''admin@example.com'', ''manager@example.com'', ''viewer@example.com''])"
proof -
  let ?three = "[''admin@example.com'', ''manager@example.com'', ''viewer@example.com'']"
  have always: "(\<forall>u \<in> set (created_users w (snd (seed env w))). is_active u) \<and>
    (created_users w (snd (seed env w)) = [] \<or>
      map email (created_users w (snd (seed env w))) = ?three) \<and>
    distinct (map email (created_users w (snd (seed env w)))) \<and>
    (count_user_ids (store w) = 0 \<and> (\<exists>r. fst (seed env w) = Inr r) \<longrightarrow>
      map email (created_users w (snd (seed env w))) = ?three)"
  proof (cases rule: seed_store_cases [of env w])
    case untouched
    with created_untouched(1) [OF untouched(1)] show ?thesis by auto
  next
    case (accounts h1 h2 h3)
    with created_accounts(1) [OF accounts(4)] show ?thesis
      by (simp add: seeded_users_def)
  next
    case (complete h1 h2 h3)
    with created_complete(1) [OF complete(4)] show ?thesis
      by (simp add: seeded_users_def)
  qed
  have "map email (created_users w (snd (seed env w))) = ?three"
    if "count_user_ids (store w) = 0" and "\<forall>db c. fault env db c = None"
      and "\<forall>p \<in> set (map snd login_credentials). \<exists>h. get_password_hash env p = Inr h"
  proof -
    from that obtain h1 h2 h3
      where "store (snd (seed env w)) = store (seeded_world h1 h2 h3 w)"
      by (rule seed_nothing_fails_store)
    from created_complete(1) [OF this] show ?thesis by (simp add: seeded_users_def)
  qed
  with always show ?thesis by blast
qed

theorem seed_users_active_distinct_witness:
  "count_user_ids (store world_empty) = 0 \<and> fst (seed env_ok world_empty) = Inr None \<and>
   list_all is_active (created_users world_empty (snd (seed env_ok world_empty))) \<and>
   map email (created_users world_empty (snd (seed env_ok world_empty))) =
     [''admin@example.com'', ''manager@example.com'', ''viewer@example.com''] \<and>
   distinct (map email (created_users world_empty (snd (seed env_ok world_empty)))) \<and>
   fst (seed env_disk_full world_empty) = Inl (StorageError ''disk full'') \<and>
   length (created_users world_empty (snd (seed env_disk_full world_empty))) = 3 \<and>
   list_all is_active (created_users world_empty (snd (seed env_disk_full world_empty))) \<and>
   distinct (map email (created_users world_empty (snd (seed env_disk_full world_empty))))"
proof -
  have "length (created_users world_empty (snd (seed env_disk_full world_empty))) = 3"
    by (simp add: seed_env_disk_full_world_empty created_users_def store_failed_world
        after_accounts_def seeded_users_def)
  with seed_users_active_distinct [of world_empty env_ok]
    seed_users_active_distinct [of world_empty env_disk_full]
  show ?thesis
    by (simp add: seed_env_ok_world_empty world_empty_count list_all_iff
        seed_env_disk_full_world_empty)
qed

end
